theory Spec2Isabelle
  imports Complex_Main
begin

section \<open>Fine-tuning script \<^verbatim>\<open>tune_transformer.py\<close>: data model\<close>

text \<open>
  The script is a straight-line program with two nested loops. It is embedded as
  state-passing functions over three pieces of state: the outside \<open>world\<close> (files,
  clock, console, random generators, the sequence of framework calls made so far), the
  \<open>learner\<close> (model parameters, optimizer, scheduler) and the loop accumulators.
  Floating-point numbers are represented by rationals; the numeric kernels of the tensor
  framework, of scikit-learn and of the two collaborating modules \<^verbatim>\<open>model.py\<close> and
  \<^verbatim>\<open>dataloader.py\<close> are not part of the source file and enter as the fields of a
  record \<open>lib\<close> of otherwise unconstrained functions.
\<close>

subsection \<open>Configuration (lines 16-37)\<close>

record config =
  pretrained_log_name :: string
  load_path :: string
  log_name :: string
  tune_mode :: string
  num_layers :: int
  lr :: rat
  window_size :: int
  adapter_size :: int
  epoch :: int

subsection \<open>Tensors, parameters, datasets\<close>

type_synonym row = "rat list"

type_synonym window = "rat list list"

type_synonym sample = "window \<times> row"

record tensor =
  shape :: "nat list"
  elems :: "rat list"

record param =
  data :: tensor
  requires_grad :: bool
  grad :: "tensor option"

type_synonym params = "(string \<times> param) list"

type_synonym state_dict = "(string \<times> tensor) list"

type_synonym checkpoint = "(string \<times> state_dict) list"

record npz =
  npz_x :: "window list"
  npz_y :: "row list"

datatype incompatible_keys =
  IncompatibleKeys (missing_keys: "string list") (unexpected_keys: "string list")

subsection \<open>Errors\<close>

datatype error =
    FileNotFoundError string
  | UnpicklingError string
  | KeyError string
  | RuntimeError string
  | NameError string
  | IndexError
  | ZeroDivisionError

subsection \<open>Text written to the result file and to the console\<close>

text \<open>
  Every \<^verbatim>\<open>f.write\<close> and \<^verbatim>\<open>print\<close> is kept as one structured chunk holding the values
  that the format string interpolates; the rendering of numbers as decimal text is not
  modelled.
\<close>

datatype chunk =
    ArgsLine config
  | LoadingModel string
  | LoadingResult incompatible_keys
  | Progress int nat nat rat rat rat rat
  | ProgressConsole int nat nat rat rat rat
  | EpochLoss int int rat
  | NumberOfEpochs int
  | NumberOfTestingData nat
  | Precision rat
  | Recall rat
  | F1Score rat
  | AllLoss "rat list"
  | BlankLine

datatype file_content = TextFile "chunk list" | NpzFile npz | CkptFile checkpoint

subsection \<open>Framework calls\<close>

datatype call =
    TorchLoad string
  | IterTrainLoader "nat list"
  | LoadStateDict state_dict bool
  | TrainAdapter
  | TrainClassifier
  | ModelTrain
  | ModelEval
  | Forward
  | Criterion
  | ZeroGrad
  | Backward
  | ClipGradNorm rat
  | OptimizerStep
  | SchedulerStep

subsection \<open>The world\<close>

record rngs =
  torch_cpu :: nat
  torch_cuda :: nat
  numpy_rng :: nat
  py_rng :: nat

record world =
  fs :: "string \<Rightarrow> file_content option"
  clock :: "nat \<Rightarrow> rat"
  ticks :: nat
  console :: "chunk list"
  rng :: rngs
  torch_calls :: "call list"

definition time_time :: "world \<Rightarrow> rat \<times> world" where
  "time_time w = (clock w (ticks w), w\<lparr>ticks := Suc (ticks w)\<rparr>)"

definition print :: "chunk \<Rightarrow> world \<Rightarrow> world" where
  "print c w = w\<lparr>console := console w @ [c]\<rparr>"

definition called :: "call \<Rightarrow> world \<Rightarrow> world" where
  "called c w = w\<lparr>torch_calls := torch_calls w @ [c]\<rparr>"

text \<open>
  \<^verbatim>\<open>open(path, 'w')\<close> followed by writes: whatever was at the path is replaced.
  \<^verbatim>\<open>open(path, 'a')\<close> followed by writes: the chunks go after the existing text, and a
  missing file is created. The directory \<^verbatim>\<open>result/\<close> is taken to exist. Appending to a
  file that holds something other than text (which the script can only meet when a data or
  checkpoint path coincides with the result path, and then only before line 39 has
  replaced it) is not distinguished from appending to an empty text file.
\<close>

definition text_of :: "file_content option \<Rightarrow> chunk list" where
  "text_of f = (case f of Some (TextFile cs) \<Rightarrow> cs | _ \<Rightarrow> [])"

definition open_w :: "string \<Rightarrow> chunk list \<Rightarrow> world \<Rightarrow> world" where
  "open_w path cs w = w\<lparr>fs := (fs w)(path := Some (TextFile cs))\<rparr>"

definition open_a :: "string \<Rightarrow> chunk list \<Rightarrow> world \<Rightarrow> world" where
  "open_a path cs w = w\<lparr>fs := (fs w)(path := Some (TextFile (text_of (fs w path) @ cs)))\<rparr>"

subsection \<open>Collaborators outside the source file\<close>

record hparams =
  hp_mode :: string
  hp_num_layers :: int
  hp_adapter_size :: int
  hp_dim :: nat
  hp_window_size :: int
  hp_nhead :: nat
  hp_dim_feedforward :: nat
  hp_dropout :: rat

record lib =
  str_float :: "rat \<Rightarrow> string"
  DataGenerator :: "window list \<Rightarrow> row list \<Rightarrow> int \<Rightarrow> sample list"
  Model :: "hparams \<Rightarrow> rngs \<Rightarrow> params \<times> rngs"
  train_adapter :: "params \<Rightarrow> params"
  train_classifier :: "params \<Rightarrow> params"
  randperm :: "rngs \<Rightarrow> nat \<Rightarrow> nat list \<times> rngs"
  forward_train :: "params \<Rightarrow> window list \<Rightarrow> rngs \<Rightarrow> row list \<times> rngs"
  forward_eval :: "params \<Rightarrow> window list \<Rightarrow> row list"
  BCEWithLogitsLoss :: "row list \<Rightarrow> row list \<Rightarrow> rat"
  zero_grad :: "params \<Rightarrow> params"
  backward :: "params \<Rightarrow> window list \<Rightarrow> row list \<Rightarrow> rngs \<Rightarrow> params"
  clip_grad_norm :: "params \<Rightarrow> rat \<Rightarrow> params"
  adam_step :: "state_dict \<Rightarrow> rat \<Rightarrow> rat \<Rightarrow> params \<Rightarrow> params \<times> state_dict"
  one_cycle_lr :: "rat \<Rightarrow> int \<Rightarrow> nat \<Rightarrow> rat"
  f1_score :: "nat list \<Rightarrow> nat list \<Rightarrow> rat"
  precision_recall_fscore_support :: "nat list \<Rightarrow> nat list \<Rightarrow> rat \<times> rat \<times> rat"

section \<open>Result file name (lines 37-40)\<close>

definition digit_char :: "nat \<Rightarrow> char" where
  "digit_char d = char_of (48 + d)"

function str_nat :: "nat \<Rightarrow> string" where
  "str_nat n = (if n < 10 then [digit_char n] else str_nat (n div 10) @ [digit_char (n mod 10)])"
  by pat_completeness auto
termination
  by (relation "measure (\<lambda>n. n)") auto

declare str_nat.simps [simp del]

definition str_int :: "int \<Rightarrow> string" where
  "str_int i = (if i < 0 then CHR ''-'' # str_nat (nat (- i)) else str_nat (nat i))"

definition suffix :: "lib \<Rightarrow> config \<Rightarrow> string" where
  "suffix L args =
     log_name args @ ''_from_'' @ pretrained_log_name args @ ''_'' @ tune_mode args @ ''_'' @
     str_int (num_layers args) @ ''_'' @ str_int (adapter_size args) @ ''_'' @
     str_float L (lr args) @ ''_'' @ str_int (epoch args)"

definition result_path :: "lib \<Rightarrow> config \<Rightarrow> string" where
  "result_path L args = ''result/tune_'' @ suffix L args @ ''.txt''"

definition write_args :: "lib \<Rightarrow> config \<Rightarrow> world \<Rightarrow> world" where
  "write_args L args w = open_w (result_path L args) [ArgsLine args] w"

section \<open>Checkpoint loading (lines 92-100)\<close>

definition torch_load :: "string \<Rightarrow> world \<Rightarrow> (error + checkpoint) \<times> world" where
  "torch_load path w =
     (case fs w path of
        None \<Rightarrow> (Inl (FileNotFoundError path), w)
      | Some (CkptFile c) \<Rightarrow> (Inr c, called (TorchLoad path) w)
      | Some _ \<Rightarrow> (Inl (UnpicklingError path), w))"

text \<open>\<^verbatim>\<open>d[k]\<close> and \<^verbatim>\<open>d.pop(k)\<close> on a dictionary: both raise \<^verbatim>\<open>KeyError\<close> on a missing key.\<close>

definition getitem :: "(string \<times> 'v) list \<Rightarrow> string \<Rightarrow> error + 'v" where
  "getitem d k = (case map_of d k of None \<Rightarrow> Inl (KeyError k) | Some v \<Rightarrow> Inr v)"

definition pop :: "string \<Rightarrow> (string \<times> 'v) list \<Rightarrow> error + (string \<times> 'v) list" where
  "pop k d =
     (case map_of d k of
        None \<Rightarrow> Inl (KeyError k)
      | Some v \<Rightarrow> Inr (filter (\<lambda>kv. fst kv \<noteq> k) d))"

text \<open>
  Modelled from the spec: the framework's non-strict parameter load (section 4.2 and the
  glossary) is not in the source file. Every parameter of the model whose name is in the
  given mapping takes the tensor stored there; a name of the model that the mapping lacks
  is reported as missing and its parameter is left alone; a name of the mapping that the
  model lacks is reported as unexpected; neither is an error. A retained tensor whose
  shape differs from the model's raises.
\<close>

definition load_one :: "state_dict \<Rightarrow> string \<times> param \<Rightarrow> string \<times> param" where
  "load_one sd np =
     (case map_of sd (fst np) of
        None \<Rightarrow> np
      | Some t \<Rightarrow> if shape t = shape (data (snd np)) then (fst np, (snd np)\<lparr>data := t\<rparr>) else np)"

definition mismatched :: "state_dict \<Rightarrow> string \<times> param \<Rightarrow> bool" where
  "mismatched sd np =
     (case map_of sd (fst np) of None \<Rightarrow> False | Some t \<Rightarrow> shape t \<noteq> shape (data (snd np)))"

definition load_state_dict ::
  "params \<Rightarrow> state_dict \<Rightarrow> error option \<times> params \<times> incompatible_keys" where
  "load_state_dict model sd =
     (let keys = IncompatibleKeys
                   [n \<leftarrow> map fst model. map_of sd n = None]
                   [k \<leftarrow> map fst sd. k \<notin> set (map fst model)]
      in (if list_ex (mismatched sd) model then Some (RuntimeError ''size mismatch'') else None,
          map (load_one sd) model, keys))"

definition load_pretrained ::
  "lib \<Rightarrow> config \<Rightarrow> params \<times> world \<Rightarrow> error option \<times> params \<times> world" where
  "load_pretrained L args = (\<lambda>(model, w).
     if pretrained_log_name args \<noteq> ''random'' then
       (case torch_load (load_path args) w of
          (Inl e, w1) \<Rightarrow> (Some e, model, w1)
        | (Inr checkpoint, w1) \<Rightarrow>
            (case getitem checkpoint ''net'' of
               Inl e \<Rightarrow> (Some e, model, w1)
             | Inr net \<Rightarrow>
                 (case pop ''module.fc1.weight'' net of
                    Inl e \<Rightarrow> (Some e, model, w1)
                  | Inr net1 \<Rightarrow>
                      (case pop ''module.fc1.bias'' net1 of
                         Inl e \<Rightarrow> (Some e, model, w1)
                       | Inr net2 \<Rightarrow>
                           (case load_state_dict model net2 of
                              (Some e, model', r) \<Rightarrow>
                                (Some e, model', called (LoadStateDict net2 False) w1)
                            | (None, model', r) \<Rightarrow>
                                (None, model',
                                 open_a (result_path L args)
                                   [LoadingModel (load_path args), LoadingResult r]
                                   (called (LoadStateDict net2 False) w1)))))))
     else (None, model, w))"


section \<open>Seeding (lines 49-55)\<close>

text \<open>
  The state of a generator that has just been seeded with \<open>s\<close> is represented by \<open>s\<close>.
  The warning filter and the cuDNN flag of lines 50 and 55 touch nothing that is modelled.
\<close>

definition fix_seeds :: "world \<Rightarrow> world" where
  "fix_seeds w = w\<lparr>rng := \<lparr>torch_cpu = 123, torch_cuda = 123, numpy_rng = 123, py_rng = 123\<rparr>\<rparr>"

section \<open>Data (lines 58-74)\<close>

text \<open>Reading an archive: a missing file and a file that is no archive raise. An archive
  is taken to hold both arrays \<^verbatim>\<open>x\<close> and \<^verbatim>\<open>y\<close>. Paths are compared as written.\<close>

definition np_load :: "string \<Rightarrow> world \<Rightarrow> error + npz" where
  "np_load path w =
     (case fs w path of
        None \<Rightarrow> Inl (FileNotFoundError path)
      | Some (NpzFile d) \<Rightarrow> Inr d
      | Some _ \<Rightarrow> Inl (UnpicklingError path))"

definition training_data_path :: "config \<Rightarrow> string" where
  "training_data_path args = ''./preprocessed_data/'' @ log_name args @ ''_training_data.npz''"

definition testing_data_path :: "config \<Rightarrow> string" where
  "testing_data_path args = ''./preprocessed_data/'' @ log_name args @ ''_testing_data.npz''"

definition batch_size :: nat where
  "batch_size = 64"

text \<open>A loader cuts the sequence it iterates over into consecutive batches, the last one
  possibly shorter; its length is the number of batches.\<close>

function batches :: "nat \<Rightarrow> 'a list \<Rightarrow> 'a list list" where
  "batches n xs = (if n = 0 \<or> xs = [] then [] else take n xs # batches n (drop n xs))"
  by pat_completeness auto
termination
  by (relation "measure (\<lambda>(n, xs). length xs)") auto

declare batches.simps [simp del]

definition loader_len :: "'a list \<Rightarrow> nat" where
  "loader_len ds = (length ds + batch_size - 1) div batch_size"

text \<open>Fetching the samples of one batch of indices; an index outside the dataset raises.\<close>

definition fetch :: "'a list \<Rightarrow> nat list \<Rightarrow> error + 'a list" where
  "fetch ds idxs =
     (if list_all (\<lambda>i. i < length ds) idxs then Inr (map (\<lambda>i. ds ! i) idxs) else Inl IndexError)"

section \<open>Model construction and tuning mode (lines 76-89)\<close>

definition EMBEDDING_DIM :: nat where
  "EMBEDDING_DIM = 768"

definition model_hparams :: "config \<Rightarrow> hparams" where
  "model_hparams args =
     \<lparr>hp_mode = ''adapter'', hp_num_layers = num_layers args,
      hp_adapter_size = adapter_size args, hp_dim = EMBEDDING_DIM,
      hp_window_size = window_size args, hp_nhead = 8,
      hp_dim_feedforward = 4 * EMBEDDING_DIM, hp_dropout = 1 / 10\<rparr>"

definition set_requires_grad :: "bool \<Rightarrow> string \<times> param \<Rightarrow> string \<times> param" where
  "set_requires_grad b np = (fst np, (snd np)\<lparr>requires_grad := b\<rparr>)"

definition select_tune_mode :: "lib \<Rightarrow> config \<Rightarrow> params \<times> world \<Rightarrow> params \<times> world" where
  "select_tune_mode L args = (\<lambda>(model, w).
     if tune_mode args = ''adapter'' then (train_adapter L model, called TrainAdapter w)
     else if tune_mode args = ''classifier'' then
       (train_classifier L model, called TrainClassifier w)
     else if tune_mode args = ''tuning'' then (map (set_requires_grad True) model, w)
     else (model, w))"

text \<open>The data-parallel wrapper holds the model as its submodule \<^verbatim>\<open>module\<close>, which is why
  the names of lines 95 and 96 start with \<^verbatim>\<open>module.\<close>.\<close>

definition DataParallel :: "params \<Rightarrow> params" where
  "DataParallel model = map (\<lambda>np. (''module.'' @ fst np, snd np)) model"

section \<open>Optimizer, scheduler and learner (lines 103-110)\<close>

record optimizer =
  opt_lr :: rat
  weight_decay :: rat
  opt_state :: state_dict

record scheduler =
  max_lr :: rat
  sched_epochs :: int
  steps_per_epoch :: nat
  total_steps :: int
  last_epoch :: nat

record learner =
  lrn_model :: params
  lrn_training :: bool
  lrn_optimizer :: optimizer
  lrn_scheduler :: scheduler

definition Adam :: "rat \<Rightarrow> rat \<Rightarrow> optimizer" where
  "Adam rate decay = \<lparr>opt_lr = rate, weight_decay = decay, opt_state = []\<rparr>"

text \<open>
  Modelled from the spec: the one-cycle policy is the framework's; its step budget spans
  all epochs times the batches of one epoch (section 4.4). The rate it sets at step \<open>k\<close>
  is the collaborator \<open>one_cycle_lr\<close>.
\<close>

definition OneCycleLR :: "rat \<Rightarrow> int \<Rightarrow> nat \<Rightarrow> scheduler" where
  "OneCycleLR mx eps spe =
     \<lparr>max_lr = mx, sched_epochs = eps, steps_per_epoch = spe,
      total_steps = eps * int spe, last_epoch = 0\<rparr>"

definition get_last_lr :: "lib \<Rightarrow> scheduler \<Rightarrow> rat" where
  "get_last_lr L s = one_cycle_lr L (max_lr s) (total_steps s) (last_epoch s)"

definition make_learner :: "lib \<Rightarrow> config \<Rightarrow> nat \<Rightarrow> params \<Rightarrow> learner" where
  "make_learner L args len_train_loader model =
     (let s = OneCycleLR (lr args) (epoch args) len_train_loader
      in \<lparr>lrn_model = model, lrn_training = True,
          lrn_optimizer = (Adam (lr args) 0)\<lparr>opt_lr := get_last_lr L s\<rparr>,
          lrn_scheduler = s\<rparr>)"

definition log_interval :: nat where
  "log_interval = 100"

definition start_epoch :: int where
  "start_epoch = - 1"


section \<open>Loops\<close>

text \<open>A \<^verbatim>\<open>for\<close> loop whose body may raise: the first error ends the loop, with the state
  the body had reached.\<close>

fun for_each :: "('a \<Rightarrow> 's \<Rightarrow> error option \<times> 's) \<Rightarrow> 'a list \<Rightarrow> 's \<Rightarrow> error option \<times> 's" where
  "for_each body [] s = (None, s)"
| "for_each body (x # xs) s =
     (case body x s of
        (None, s') \<Rightarrow> for_each body xs s'
      | (Some e, s') \<Rightarrow> (Some e, s'))"

text \<open>Python's \<^verbatim>\<open>range(a, b)\<close> over the integers.\<close>

definition range_int :: "int \<Rightarrow> int \<Rightarrow> int list" where
  "range_int a b = map (\<lambda>k. a + int k) [0..<nat (b - a)]"

section \<open>Training loop (lines 111-159)\<close>

record accum =
  loss_all :: "rat list"
  f1_all :: "rat list"
  train_loss :: rat
  train_pred :: "nat list"
  train_true :: "nat list"
  start_time :: rat

text \<open>
  Line 155 assigns \<^verbatim>\<open>train_acc\<close>, line 108 \<^verbatim>\<open>best_f1\<close> and line 162 \<^verbatim>\<open>n\<close>; nothing
  reads these names, and they are left out of the state.
\<close>

definition init_accum :: "rat \<Rightarrow> accum" where
  "init_accum t =
     \<lparr>loss_all = [], f1_all = [], train_loss = 0, train_pred = [], train_true = [],
      start_time = t\<rparr>"

text \<open>Index of the first largest entry of a row. Rows are never empty where \<open>argmax\<close> is
  applied: \<open>argmax_rows\<close> raises before.\<close>

fun argmax_from :: "rat \<Rightarrow> nat \<Rightarrow> nat \<Rightarrow> rat list \<Rightarrow> nat" where
  "argmax_from best bi i [] = bi"
| "argmax_from best bi i (x # xs) =
     (if best < x then argmax_from x i (Suc i) xs else argmax_from best bi (Suc i) xs)"

definition argmax :: "row \<Rightarrow> nat" where
  "argmax r = (case r of [] \<Rightarrow> 0 | x # xs \<Rightarrow> argmax_from x 0 1 xs)"

definition argmax_rows :: "row list \<Rightarrow> error + nat list" where
  "argmax_rows rows =
     (if list_ex (\<lambda>r. r = []) rows then Inl IndexError else Inr (map argmax rows))"

definition model_call :: "lib \<Rightarrow> learner \<Rightarrow> window list \<Rightarrow> world \<Rightarrow> row list \<times> world" where
  "model_call L l x w =
     (if lrn_training l then
        (let (out, g) = forward_train L (lrn_model l) x (rng w)
         in (out, called Forward (w\<lparr>rng := g\<rparr>)))
      else (forward_eval L (lrn_model l) x, called Forward w))"

text \<open>Lines 122-129: one optimisation step on a batch.\<close>

definition train_step ::
  "lib \<Rightarrow> window list \<Rightarrow> row list \<Rightarrow> learner \<times> world \<Rightarrow> (row list \<times> rat) \<times> learner \<times> world" where
  "train_step L x y = (\<lambda>(l, w).
     let g0 = rng w;
         (out, w1) = model_call L l x w;
         loss = BCEWithLogitsLoss L out y;
         w2 = called Criterion w1;
         m1 = zero_grad L (lrn_model l);
         w3 = called ZeroGrad w2;
         m2 = backward L m1 x y g0;
         w4 = called Backward w3;
         m3 = clip_grad_norm L m2 (1 / 2);
         w5 = called (ClipGradNorm (1 / 2)) w4;
         opt = lrn_optimizer l;
         (m4, st) = adam_step L (opt_state opt) (opt_lr opt) (weight_decay opt) m3;
         w6 = called OptimizerStep w5;
         s = (lrn_scheduler l)\<lparr>last_epoch := Suc (last_epoch (lrn_scheduler l))\<rparr>;
         w7 = called SchedulerStep w6
     in ((out, loss),
         l\<lparr>lrn_model := m4,
           lrn_optimizer := opt\<lparr>opt_state := st, opt_lr := get_last_lr L s\<rparr>,
           lrn_scheduler := s\<rparr>,
         w7))"

text \<open>The framework calls of one optimisation step, in the order of lines 122-129.\<close>

definition step_calls :: "call list" where
  "step_calls =
     [Forward, Criterion, ZeroGrad, Backward, ClipGradNorm (1 / 2), OptimizerStep, SchedulerStep]"

text \<open>Lines 136-156: the progress report of a logging batch.\<close>

definition log_progress ::
  "lib \<Rightarrow> config \<Rightarrow> int \<Rightarrow> nat \<Rightarrow> nat \<Rightarrow> learner \<Rightarrow> accum \<times> world \<Rightarrow> accum \<times> world" where
  "log_progress L args e batch_idx len_train_loader l = (\<lambda>(a, w).
     let (t, w1) = time_time w;
         time_cost = t - start_time a;
         cur_loss = train_loss a / of_nat log_interval;
         cur_f1 = f1_score L (train_true a) (train_pred a);
         last_lr = get_last_lr L (lrn_scheduler l);
         w2 = open_a (result_path L args)
                [Progress e batch_idx len_train_loader cur_loss cur_f1 time_cost last_lr] w1;
         w3 = print (ProgressConsole e batch_idx len_train_loader cur_loss cur_f1 last_lr) w2;
         (t', w4) = time_time w3
     in (a\<lparr>loss_all := loss_all a @ [train_loss a], f1_all := f1_all a @ [cur_f1],
           train_loss := 0, start_time := t'\<rparr>,
         w4))"

text \<open>Lines 118-156: the body of the loop over the batches of the training loader.\<close>

definition train_batch ::
  "lib \<Rightarrow> config \<Rightarrow> sample list \<Rightarrow> int \<Rightarrow> nat \<times> nat list \<Rightarrow>
   learner \<times> accum \<times> world \<Rightarrow> error option \<times> learner \<times> accum \<times> world" where
  "train_batch L args ds e = (\<lambda>(batch_idx, idxs) (l, a, w).
     case fetch ds idxs of
       Inl err \<Rightarrow> (Some err, l, a, w)
     | Inr batch \<Rightarrow>
         (let x = map fst batch;
              y = map snd batch;
              ((out, loss), l1, w1) = train_step L x y (l, w);
              a1 = a\<lparr>train_loss := train_loss a + loss\<rparr>
          in case argmax_rows out of
               Inl err \<Rightarrow> (Some err, l1, a1, w1)
             | Inr p \<Rightarrow>
                 (let a2 = a1\<lparr>train_pred := train_pred a1 @ p\<rparr>
                  in case argmax_rows y of
                       Inl err \<Rightarrow> (Some err, l1, a2, w1)
                     | Inr t \<Rightarrow>
                         (let a3 = a2\<lparr>train_true := train_true a2 @ t\<rparr>
                          in if batch_idx mod log_interval = 0 \<and> batch_idx > 0 then
                               (let (a4, w2) = log_progress L args e batch_idx (loader_len ds) l1 (a3, w1)
                                in (None, l1, a4, w2))
                             else (None, l1, a3, w1)))))"

text \<open>
  Lines 112-159. The training loader shuffles: each pass draws a fresh permutation of the
  dataset's indices from the generators and cuts it into batches.
\<close>

definition train_epoch ::
  "lib \<Rightarrow> config \<Rightarrow> sample list \<Rightarrow> int \<Rightarrow> learner \<times> world \<Rightarrow>
   error option \<times> learner \<times> accum \<times> world" where
  "train_epoch L args ds e = (\<lambda>(l, w).
     let l1 = l\<lparr>lrn_training := True\<rparr>;
         w1 = called ModelTrain w;
         (t, w2) = time_time w1;
         (perm, g) = randperm L (rng w2) (length ds);
         w3 = called (IterTrainLoader perm) (w2\<lparr>rng := g\<rparr>)
     in case for_each (train_batch L args ds e) (enumerate 0 (batches batch_size perm))
               (l1, init_accum t, w3) of
          (Some err, s) \<Rightarrow> (Some err, s)
        | (None, l2, a, w4) \<Rightarrow>
            if loader_len ds = 0 then (Some ZeroDivisionError, l2, a, w4)
            else
              (let a' = a\<lparr>train_loss := sum_list (loss_all a) / of_nat (loader_len ds)\<rparr>
               in (None, l2, a', print (EpochLoss e (epoch args) (train_loss a')) w4)))"

section \<open>Evaluation loop and report (lines 161-193)\<close>

text \<open>The buffers \<^verbatim>\<open>y_pred\<close> and \<^verbatim>\<open>y_true\<close> are bound by the first batch; \<open>None\<close> stands
  for the two names being unbound. The test loader does not shuffle: it yields the dataset
  in its own order.\<close>

definition eval_batch ::
  "lib \<Rightarrow> learner \<Rightarrow> nat \<times> sample list \<Rightarrow> (row list \<times> row list) option \<times> world \<Rightarrow>
   error option \<times> (row list \<times> row list) option \<times> world" where
  "eval_batch L l = (\<lambda>(batch_idx, batch) (bufs, w).
     let x = map fst batch;
         y = map snd batch;
         (out, w1) = model_call L l x w
     in if batch_idx = 0 then (None, Some (out, y), w1)
        else (case bufs of
                None \<Rightarrow> (Some (NameError ''y_pred''), bufs, w1)
              | Some (y_pred, y_true) \<Rightarrow> (None, Some (y_pred @ out, y_true @ y), w1)))"

definition eval_loop ::
  "lib \<Rightarrow> sample list \<Rightarrow> learner \<times> world \<Rightarrow>
   error option \<times> learner \<times> (row list \<times> row list) option \<times> world" where
  "eval_loop L test_set = (\<lambda>(l, w).
     let l1 = l\<lparr>lrn_training := False\<rparr>;
         w1 = called ModelEval w
     in case for_each (eval_batch L l1) (enumerate 0 (batches batch_size test_set)) (None, w1) of
          (err, bufs, w2) \<Rightarrow> (err, l1, bufs, w2))"

text \<open>Lines 177-179.\<close>

definition calc_metrics ::
  "lib \<Rightarrow> (row list \<times> row list) option \<Rightarrow> error + (nat list \<times> nat list \<times> rat \<times> rat \<times> rat)" where
  "calc_metrics L bufs =
     (case bufs of
        None \<Rightarrow> Inl (NameError ''y_true'')
      | Some (y_pred, y_true) \<Rightarrow>
          (case argmax_rows y_true of
             Inl err \<Rightarrow> Inl err
           | Inr t \<Rightarrow>
               (case argmax_rows y_pred of
                  Inl err \<Rightarrow> Inl err
                | Inr p \<Rightarrow> Inr (t, p, precision_recall_fscore_support L t p))))"

text \<open>Lines 180-193.\<close>

definition write_report ::
  "lib \<Rightarrow> config \<Rightarrow> int \<Rightarrow> nat \<Rightarrow> rat list \<Rightarrow> rat \<times> rat \<times> rat \<Rightarrow> world \<Rightarrow> world" where
  "write_report L args e n_test losses report w =
     (let (pr, rc, f1) = report;
          w1 = open_a (result_path L args)
                 [NumberOfEpochs e, NumberOfTestingData n_test, Precision pr, Recall rc,
                  F1Score f1, AllLoss losses, BlankLine] w;
          w2 = print (NumberOfTestingData n_test) w1;
          w3 = print (Precision pr) w2;
          w4 = print (Recall rc) w3
      in print (F1Score f1) w4)"

text \<open>Lines 111-193: one pass of the loop over the epochs.\<close>

definition run_epoch ::
  "lib \<Rightarrow> config \<Rightarrow> sample list \<Rightarrow> sample list \<Rightarrow> nat \<Rightarrow> int \<Rightarrow> learner \<times> world \<Rightarrow>
   error option \<times> learner \<times> world" where
  "run_epoch L args train_set test_set n_test e lw =
     (case train_epoch L args train_set e lw of
        (Some err, l, a, w) \<Rightarrow> (Some err, l, w)
      | (None, l, a, w) \<Rightarrow>
          (case eval_loop L test_set (l, w) of
             (Some err, l1, bufs, w1) \<Rightarrow> (Some err, l1, w1)
           | (None, l1, bufs, w1) \<Rightarrow>
               (case calc_metrics L bufs of
                  Inl err \<Rightarrow> (Some err, l1, w1)
                | Inr (y_true, y_pred, report) \<Rightarrow>
                    (None, l1, write_report L args e n_test (loss_all a) report w1))))"

section \<open>The whole script\<close>

definition script :: "lib \<Rightarrow> config \<Rightarrow> world \<Rightarrow> error option \<times> world" where
  "script L args w0 =
     (let w1 = write_args L args w0;
          w2 = fix_seeds w1
      in case np_load (training_data_path args) w2 of
           Inl err \<Rightarrow> (Some err, w2)
         | Inr training_data \<Rightarrow>
             (case np_load (testing_data_path args) w2 of
                Inl err \<Rightarrow> (Some err, w2)
              | Inr testing_data \<Rightarrow>
                  (let train_generator =
                         DataGenerator L (npz_x training_data) (npz_y training_data) (window_size args);
                       test_generator =
                         DataGenerator L (npz_x testing_data) (npz_y testing_data) (window_size args);
                       (model, g) = Model L (model_hparams args) (rng w2);
                       (model1, w3) = select_tune_mode L args (model, w2\<lparr>rng := g\<rparr>)
                   in case load_pretrained L args (DataParallel model1, w3) of
                        (Some err, model2, w4) \<Rightarrow> (Some err, w4)
                      | (None, model2, w4) \<Rightarrow>
                          (case for_each
                                  (run_epoch L args train_generator test_generator
                                     (length (npz_x testing_data)))
                                  (range_int (start_epoch + 1) (epoch args))
                                  (make_learner L args (loader_len train_generator) model2, w4) of
                             (err, l, w5) \<Rightarrow> (err, w5)))))"


section \<open>Specification predicates\<close>

text \<open>Between two worlds, nothing but the file at \<open>rp\<close> has changed, that file has only
  grown at its end, and so has the console.\<close>

definition only_appends :: "string \<Rightarrow> world \<Rightarrow> world \<Rightarrow> bool" where
  "only_appends rp w0 w \<longleftrightarrow>
     (\<forall>p. p \<noteq> rp \<longrightarrow> fs w p = fs w0 p) \<and>
     (\<exists>new. text_of (fs w rp) = text_of (fs w0 rp) @ new) \<and>
     (\<exists>out. console w = console w0 @ out)"

text \<open>Two worlds whose generators are in the same state and that have seen the same
  framework calls; two accumulator states that differ at most in the time stamp; and the
  same for the states of the loops.\<close>

definition same_draws :: "world \<Rightarrow> world \<Rightarrow> bool" where
  "same_draws w1 w2 \<longleftrightarrow> rng w1 = rng w2 \<and> torch_calls w1 = torch_calls w2"

definition same_accum :: "accum \<Rightarrow> accum \<Rightarrow> bool" where
  "same_accum a1 a2 \<longleftrightarrow> a1\<lparr>start_time := 0\<rparr> = a2\<lparr>start_time := 0\<rparr>"

text \<open>The batches of dataset indices that the shuffling training loader has handed out, epoch
  by epoch, read off the framework calls of a run.\<close>

definition train_batch_order :: "world \<Rightarrow> nat list list list" where
  "train_batch_order w =
     concat (map (\<lambda>c. case c of IterTrainLoader perm \<Rightarrow> [batches batch_size perm] | _ \<Rightarrow> [])
               (torch_calls w))"

definition sim_train :: "learner \<times> accum \<times> world \<Rightarrow> learner \<times> accum \<times> world \<Rightarrow> bool" where
  "sim_train s t \<longleftrightarrow>
     fst s = fst t \<and> same_accum (fst (snd s)) (fst (snd t)) \<and> same_draws (snd (snd s)) (snd (snd t))"

definition sim_eval ::
  "(row list \<times> row list) option \<times> world \<Rightarrow> (row list \<times> row list) option \<times> world \<Rightarrow> bool" where
  "sim_eval s t \<longleftrightarrow> fst s = fst t \<and> same_draws (snd s) (snd t)"

definition sim_run :: "learner \<times> world \<Rightarrow> learner \<times> world \<Rightarrow> bool" where
  "sim_run s t \<longleftrightarrow> fst s = fst t \<and> same_draws (snd s) (snd t)"

section \<open>A small concrete run\<close>

text \<open>Concrete collaborators, configuration, data and world, on which the theorems below
  are instantiated.\<close>

definition ex_tensor :: "rat \<Rightarrow> tensor" where
  "ex_tensor v = \<lparr>shape = [1], elems = [v]\<rparr>"

definition ex_param :: "rat \<Rightarrow> param" where
  "ex_param v = \<lparr>data = ex_tensor v, requires_grad = False, grad = None\<rparr>"

definition ex_lib :: lib where
  "ex_lib =
     \<lparr>str_float = (\<lambda>r. ''1e-05''),
      DataGenerator = (\<lambda>xs ys ws. zip xs ys),
      Model = (\<lambda>hp g. ([(''fc1.weight'', ex_param 1), (''adapter.weight'', ex_param 3)],
                        g\<lparr>torch_cpu := Suc (torch_cpu g)\<rparr>)),
      train_adapter = map (\<lambda>np. set_requires_grad (fst np = ''adapter.weight'') np),
      train_classifier = map (\<lambda>np. set_requires_grad (fst np = ''fc1.weight'') np),
      randperm = (\<lambda>g n. (rev [0..<n], g\<lparr>torch_cpu := Suc (torch_cpu g)\<rparr>)),
      forward_train = (\<lambda>m xs g. (map (\<lambda>x. [0, 1]) xs, g\<lparr>torch_cuda := Suc (torch_cuda g)\<rparr>)),
      forward_eval = (\<lambda>m xs. map (\<lambda>x. [1, 0]) xs),
      BCEWithLogitsLoss = (\<lambda>out y. 1 / 2),
      zero_grad = (\<lambda>m. m),
      backward = (\<lambda>m x y g. m),
      clip_grad_norm = (\<lambda>m c. m),
      adam_step = (\<lambda>st rate decay m. (m, st)),
      one_cycle_lr = (\<lambda>mx total k. mx),
      f1_score = (\<lambda>t p. 0),
      precision_recall_fscore_support = (\<lambda>t p. (0, 0, 0))\<rparr>"

definition ex_args :: config where
  "ex_args =
     \<lparr>pretrained_log_name = ''BGL_2k'', load_path = ''checkpoints/best.pt'',
      log_name = ''BGL_2k'', tune_mode = ''adapter'', num_layers = 1, lr = 1 / 100000,
      window_size = 20, adapter_size = 64, epoch = 1\<rparr>"

definition ex_world :: world where
  "ex_world =
     \<lparr>fs = (\<lambda>p. None), clock = (\<lambda>k. of_nat k), ticks = 0, console = [],
      rng = \<lparr>torch_cpu = 0, torch_cuda = 0, numpy_rng = 0, py_rng = 0\<rparr>, torch_calls = []\<rparr>"

definition ex_model :: params where
  "ex_model =
     [(''module.fc1.weight'', ex_param 1), (''module.fc1.bias'', ex_param 2),
      (''module.adapter.weight'', ex_param 3), (''module.encoder.weight'', ex_param 4)]"

definition ex_net :: state_dict where
  "ex_net =
     [(''module.fc1.weight'', ex_tensor 10), (''module.adapter.weight'', ex_tensor 30),
      (''module.fc1.bias'', ex_tensor 20), (''module.pretrain_head'', ex_tensor 50)]"

definition ex_checkpoint :: checkpoint where
  "ex_checkpoint = [(''net'', ex_net)]"

definition ex_learner :: learner where
  "ex_learner = make_learner ex_lib ex_args 1 ex_model"

definition ex_sample :: "rat \<Rightarrow> sample" where
  "ex_sample v = ([[v]], [1, 0])"


definition ex_world_ckpt :: world where
  "ex_world_ckpt =
     ex_world\<lparr>fs := (fs ex_world)(''checkpoints/best.pt'' := Some (CkptFile ex_checkpoint))\<rparr>"

definition ex_world_nobias :: world where
  "ex_world_nobias =
     ex_world\<lparr>fs := (fs ex_world)(''checkpoints/best.pt'' :=
       Some (CkptFile [(''net'', [(''module.fc1.weight'', ex_tensor 10),
                                  (''module.adapter.weight'', ex_tensor 30)])]))\<rparr>"


definition ex_training_data :: npz where
  "ex_training_data = \<lparr>npz_x = [[[1]], [[2]]], npz_y = [[1, 0], [0, 1]]\<rparr>"

definition ex_testing_data :: npz where
  "ex_testing_data = \<lparr>npz_x = [[[3]]], npz_y = [[1, 0]]\<rparr>"

definition ex_world_full :: world where
  "ex_world_full =
     ex_world\<lparr>fs := (fs ex_world)
       (''./preprocessed_data/BGL_2k_training_data.npz'' := Some (NpzFile ex_training_data),
        ''./preprocessed_data/BGL_2k_testing_data.npz'' := Some (NpzFile ex_testing_data),
        ''checkpoints/best.pt'' := Some (CkptFile ex_checkpoint),
        result_path ex_lib ex_args := Some (TextFile [BlankLine]))\<rparr>"

definition ex_world_rerun :: world where
  "ex_world_rerun =
     ex_world_full\<lparr>fs := (fs ex_world_full)(''notes.txt'' := Some (TextFile [BlankLine]),
                                           result_path ex_lib ex_args := None),
                   clock := (\<lambda>k. 1000 + 2 * of_nat k), ticks := 5, console := [BlankLine],
                   rng := \<lparr>torch_cpu = 7, torch_cuda = 8, numpy_rng = 9, py_rng = 10\<rparr>\<rparr>"

section \<open>Properties of the checkpoint loader\<close>

lemma pop_absent: "k \<notin> fst ` set d \<Longrightarrow> pop k d = Inl (KeyError k)"
proof -
  assume "k \<notin> fst ` set d"
  then have "map_of d k = None" by (simp add: map_of_eq_None_iff)
  then show ?thesis by (simp add: pop_def)
qed

lemma pop_present: "k \<in> fst ` set d \<Longrightarrow> pop k d = Inr (filter (\<lambda>kv. fst kv \<noteq> k) d)"
proof -
  assume "k \<in> fst ` set d"
  then have "map_of d k \<noteq> None" by (simp add: map_of_eq_None_iff)
  then obtain v where "map_of d k = Some v" by blast
  then show ?thesis by (simp add: pop_def)
qed

lemma text_of_TextFile [simp]: "text_of (Some (TextFile cs)) = cs"
  by (simp add: text_of_def)

lemma load_pretrained_key_error:
  assumes "pretrained_log_name args \<noteq> ''random''"
    and "fs w (load_path args) = Some (CkptFile checkpoint)"
    and "map_of checkpoint ''net'' = Some net"
    and "''module.fc1.weight'' \<notin> fst ` set net \<or> ''module.fc1.bias'' \<notin> fst ` set net"
  shows "\<exists>k \<in> {''module.fc1.weight'', ''module.fc1.bias''}.
           load_pretrained L args (model, w) =
             (Some (KeyError k), model, called (TorchLoad (load_path args)) w)"
proof (cases "''module.fc1.weight'' \<in> fst ` set net")
  case False
  then have "pop ''module.fc1.weight'' net = Inl (KeyError ''module.fc1.weight'')"
    by (simp add: pop_absent)
  with assms(1-3) show ?thesis
    by (simp add: load_pretrained_def torch_load_def getitem_def)
next
  case True
  with assms(4) have nb: "''module.fc1.bias'' \<notin> fst ` set net" by simp
  define net1 where "net1 = filter (\<lambda>kv. fst kv \<noteq> ''module.fc1.weight'') net"
  from True have p1: "pop ''module.fc1.weight'' net = Inr net1"
    by (simp add: pop_present net1_def)
  from nb have "''module.fc1.bias'' \<notin> fst ` set net1"
    by (auto simp: net1_def)
  then have "pop ''module.fc1.bias'' net1 = Inl (KeyError ''module.fc1.bias'')"
    by (simp add: pop_absent)
  with assms(1-3) p1 show ?thesis
    by (simp add: load_pretrained_def torch_load_def getitem_def)
qed

lemma load_pretrained_success_needs_head_keys:
  assumes "pretrained_log_name args \<noteq> ''random''"
    and "fst (load_pretrained L args (model, w)) = None"
  shows "\<exists>checkpoint net. fs w (load_path args) = Some (CkptFile checkpoint) \<and>
           map_of checkpoint ''net'' = Some net \<and>
           ''module.fc1.weight'' \<in> fst ` set net \<and> ''module.fc1.bias'' \<in> fst ` set net"
proof -
  from assms obtain checkpoint where c: "fs w (load_path args) = Some (CkptFile checkpoint)"
    by (auto simp: load_pretrained_def torch_load_def split: option.splits file_content.splits)
  with assms obtain net where n: "map_of checkpoint ''net'' = Some net"
    by (auto simp: load_pretrained_def torch_load_def getitem_def split: option.splits)
  have k1: "''module.fc1.weight'' \<in> fst ` set net"
  proof (rule ccontr)
    assume "\<not> ?thesis"
    then have "pop ''module.fc1.weight'' net = Inl (KeyError ''module.fc1.weight'')"
      by (rule pop_absent)
    with assms c n show False
      by (simp add: load_pretrained_def torch_load_def getitem_def)
  qed
  then have p1: "pop ''module.fc1.weight'' net = Inr (filter (\<lambda>kv. fst kv \<noteq> ''module.fc1.weight'') net)"
    by (rule pop_present)
  have k2: "''module.fc1.bias'' \<in> fst ` set net"
  proof (rule ccontr)
    assume a: "\<not> ?thesis"
    then have "''module.fc1.bias'' \<notin> fst ` set (filter (\<lambda>kv. fst kv \<noteq> ''module.fc1.weight'') net)"
      by auto
    then have "pop ''module.fc1.bias'' (filter (\<lambda>kv. fst kv \<noteq> ''module.fc1.weight'') net)
                 = Inl (KeyError ''module.fc1.bias'')"
      by (rule pop_absent)
    with assms c n p1 show False
      by (simp add: load_pretrained_def torch_load_def getitem_def)
  qed
  from c n k1 k2 show ?thesis by blast
qed

text \<open>
  Claim C9. When the pretraining source name is the sentinel \<^verbatim>\<open>random\<close>, the loading
  block does nothing: the model keeps its freshly initialised parameters and the world is
  the same, so no checkpoint was read (no framework call was recorded) and nothing was
  written to the result file.
\<close>

theorem skip_sentinel_no_load:
  "pretrained_log_name args = ''random'' \<Longrightarrow> load_pretrained L args (model, w) = (None, model, w)"
  by (simp add: load_pretrained_def)

theorem skip_sentinel_no_load_witness:
  "pretrained_log_name (ex_args\<lparr>pretrained_log_name := ''random''\<rparr>) = ''random'' \<and>
   load_pretrained ex_lib (ex_args\<lparr>pretrained_log_name := ''random''\<rparr>) (ex_model, ex_world) =
     (None, ex_model, ex_world)"
  using skip_sentinel_no_load [of "ex_args\<lparr>pretrained_log_name := ''random''\<rparr>" ex_lib ex_model ex_world]
  by simp

text \<open>
  Claim C10. If the parameter mapping of the loaded checkpoint lacks one of the two head
  names, popping it raises \<^verbatim>\<open>KeyError\<close>: the model is as it was, the only framework call
  made is the reading of the checkpoint, and nothing is written. Conversely, whenever the
  loading block of a run that does not skip it completes, the checkpoint had both names.
\<close>

theorem missing_head_key_is_fatal:
  assumes "pretrained_log_name args \<noteq> ''random''"
  shows "(fs w (load_path args) = Some (CkptFile checkpoint) \<and>
          map_of checkpoint ''net'' = Some net \<and>
          (''module.fc1.weight'' \<notin> fst ` set net \<or> ''module.fc1.bias'' \<notin> fst ` set net) \<longrightarrow>
          (\<exists>k \<in> {''module.fc1.weight'', ''module.fc1.bias''}.
             load_pretrained L args (model, w) =
               (Some (KeyError k), model, called (TorchLoad (load_path args)) w))) \<and>
         (fst (load_pretrained L args (model, w)) = None \<longrightarrow>
          (\<exists>c n. fs w (load_path args) = Some (CkptFile c) \<and> map_of c ''net'' = Some n \<and>
                 ''module.fc1.weight'' \<in> fst ` set n \<and> ''module.fc1.bias'' \<in> fst ` set n))"
  using load_pretrained_key_error [OF assms] load_pretrained_success_needs_head_keys [OF assms]
  by blast

theorem missing_head_key_is_fatal_witness:
  "pretrained_log_name ex_args \<noteq> ''random'' \<and>
   fs ex_world_nobias (load_path ex_args) =
     Some (CkptFile [(''net'', [(''module.fc1.weight'', ex_tensor 10),
                                (''module.adapter.weight'', ex_tensor 30)])]) \<and>
   (\<exists>k \<in> {''module.fc1.weight'', ''module.fc1.bias''}.
      load_pretrained ex_lib ex_args (ex_model, ex_world_nobias) =
        (Some (KeyError k), ex_model, called (TorchLoad (load_path ex_args)) ex_world_nobias)) \<and>
   fst (load_pretrained ex_lib ex_args (ex_model, ex_world_ckpt)) = None \<and>
   (\<exists>c n. fs ex_world_ckpt (load_path ex_args) = Some (CkptFile c) \<and> map_of c ''net'' = Some n \<and>
          ''module.fc1.weight'' \<in> fst ` set n \<and> ''module.fc1.bias'' \<in> fst ` set n)"
proof -
  have h: "pretrained_log_name ex_args \<noteq> ''random''"
    by (simp add: ex_args_def)
  let ?n = "[(''module.fc1.weight'', ex_tensor 10), (''module.adapter.weight'', ex_tensor 30)]"
  have a: "fs ex_world_nobias (load_path ex_args) = Some (CkptFile [(''net'', ?n)])"
    by (simp add: ex_world_nobias_def ex_args_def)
  have b: "map_of [(''net'', ?n)] ''net'' = Some ?n"
    by simp
  have c: "''module.fc1.weight'' \<notin> fst ` set ?n \<or> ''module.fc1.bias'' \<notin> fst ` set ?n"
    by simp
  have d: "fst (load_pretrained ex_lib ex_args (ex_model, ex_world_ckpt)) = None"
    by (simp add: load_pretrained_def torch_load_def getitem_def pop_def load_state_dict_def
        mismatched_def ex_args_def ex_world_ckpt_def ex_checkpoint_def ex_net_def ex_model_def
        ex_param_def ex_tensor_def)
  from missing_head_key_is_fatal [OF h, of ex_world_nobias "[(''net'', ?n)]" ?n ex_lib ex_model] a b c
  have first: "\<exists>k \<in> {''module.fc1.weight'', ''module.fc1.bias''}.
      load_pretrained ex_lib ex_args (ex_model, ex_world_nobias) =
        (Some (KeyError k), ex_model, called (TorchLoad (load_path ex_args)) ex_world_nobias)"
    by blast
  from missing_head_key_is_fatal [OF h, of ex_world_ckpt _ _ ex_lib ex_model] d
  have second: "\<exists>c n. fs ex_world_ckpt (load_path ex_args) = Some (CkptFile c) \<and>
          map_of c ''net'' = Some n \<and>
          ''module.fc1.weight'' \<in> fst ` set n \<and> ''module.fc1.bias'' \<in> fst ` set n"
    by blast
  from h a first d second show ?thesis
    by blast
qed

lemma map_of_filter_two_keys:
  "map_of (filter (\<lambda>kv. fst kv \<noteq> a \<and> fst kv \<noteq> b) d) k =
     (if k = a \<or> k = b then None else map_of d k)"
  by (induction d) auto

lemma load_one_matching:
  "\<not> mismatched sd np \<Longrightarrow>
   load_one sd np = (fst np, case map_of sd (fst np) of None \<Rightarrow> snd np | Some t \<Rightarrow> (snd np)\<lparr>data := t\<rparr>)"
  by (simp add: load_one_def mismatched_def split: option.splits)

lemma load_state_dict_ok:
  assumes "\<forall>np \<in> set model. \<not> mismatched sd np"
  shows "load_state_dict model sd =
    (None,
     map (\<lambda>np. (fst np, case map_of sd (fst np) of None \<Rightarrow> snd np | Some t \<Rightarrow> (snd np)\<lparr>data := t\<rparr>)) model,
     IncompatibleKeys [n \<leftarrow> map fst model. map_of sd n = None]
                      [k \<leftarrow> map fst sd. k \<notin> set (map fst model)])"
proof -
  from assms have "\<not> list_ex (mismatched sd) model"
    by (simp add: list_ex_iff)
  moreover from assms have "map (load_one sd) model =
     map (\<lambda>np. (fst np, case map_of sd (fst np) of None \<Rightarrow> snd np | Some t \<Rightarrow> (snd np)\<lparr>data := t\<rparr>)) model"
    by (intro map_cong refl load_one_matching) simp
  ultimately show ?thesis
    by (simp add: load_state_dict_def)
qed

text \<open>
  Claim C2. When the checkpoint is loaded (the source name is not the sentinel, the file
  holds a checkpoint whose \<^verbatim>\<open>net\<close> mapping has both head names, and no retained tensor
  has the wrong shape), the mapping \<open>sd\<close> handed to the non-strict load is the checkpoint's
  mapping without exactly the entries \<^verbatim>\<open>module.fc1.weight\<close> and \<^verbatim>\<open>module.fc1.bias\<close>;
  every parameter of the model named in \<open>sd\<close> takes the stored tensor; every parameter
  whose name the checkpoint lacks is left as it was; the names missing from \<open>sd\<close> and
  the names of \<open>sd\<close> unknown to the model are tolerated and reported; and the report is
  appended to the result file after the line naming the checkpoint.
\<close>

theorem load_pretrained_drops_head_and_applies_rest:
  assumes "pretrained_log_name args \<noteq> ''random''"
    and "fs w (load_path args) = Some (CkptFile checkpoint)"
    and "map_of checkpoint ''net'' = Some net"
    and "''module.fc1.weight'' \<in> fst ` set net"
    and "''module.fc1.bias'' \<in> fst ` set net"
    and "sd = [kv \<leftarrow> net. fst kv \<noteq> ''module.fc1.weight'' \<and> fst kv \<noteq> ''module.fc1.bias'']"
    and "\<forall>np \<in> set model. \<not> mismatched sd np"
  shows "\<exists>model' r w'.
    load_pretrained L args (model, w) = (None, model', w') \<and>
    (\<forall>k. map_of sd k =
       (if k = ''module.fc1.weight'' \<or> k = ''module.fc1.bias'' then None else map_of net k)) \<and>
    torch_calls w' = torch_calls w @ [TorchLoad (load_path args), LoadStateDict sd False] \<and>
    model' = map (\<lambda>np. (fst np, case map_of sd (fst np) of None \<Rightarrow> snd np
                                   | Some t \<Rightarrow> (snd np)\<lparr>data := t\<rparr>)) model \<and>
    (\<forall>np \<in> set model. map_of net (fst np) = None \<longrightarrow> np \<in> set model') \<and>
    r = IncompatibleKeys [n \<leftarrow> map fst model. map_of sd n = None]
                         [k \<leftarrow> map fst sd. k \<notin> set (map fst model)] \<and>
    fs w' = (fs w)(result_path L args := Some (TextFile
              (text_of (fs w (result_path L args)) @
               [LoadingModel (load_path args), LoadingResult r])))"
proof -
  define net1 where "net1 = filter (\<lambda>kv. fst kv \<noteq> ''module.fc1.weight'') net"
  have p1: "pop ''module.fc1.weight'' net = Inr net1"
    using assms(4) by (simp add: pop_present net1_def)
  have "''module.fc1.bias'' \<in> fst ` set net1"
    using assms(5) by (auto simp: net1_def)
  then have p2: "pop ''module.fc1.bias'' net1 = Inr (filter (\<lambda>kv. fst kv \<noteq> ''module.fc1.bias'') net1)"
    by (rule pop_present)
  have sd: "filter (\<lambda>kv. fst kv \<noteq> ''module.fc1.bias'') net1 = sd"
    by (simp add: net1_def assms(6))
  have m: "\<And>k. map_of sd k =
       (if k = ''module.fc1.weight'' \<or> k = ''module.fc1.bias'' then None else map_of net k)"
    unfolding assms(6) by (rule map_of_filter_two_keys)
  let ?model' = "map (\<lambda>np. (fst np, case map_of sd (fst np) of None \<Rightarrow> snd np
                                   | Some t \<Rightarrow> (snd np)\<lparr>data := t\<rparr>)) model"
  let ?r = "IncompatibleKeys [n \<leftarrow> map fst model. map_of sd n = None]
                         [k \<leftarrow> map fst sd. k \<notin> set (map fst model)]"
  let ?w' = "open_a (result_path L args) [LoadingModel (load_path args), LoadingResult ?r]
               (called (LoadStateDict sd False) (called (TorchLoad (load_path args)) w))"
  have run: "load_pretrained L args (model, w) = (None, ?model', ?w')"
    using assms(1-3) p1 p2 load_state_dict_ok [OF assms(7)]
    by (simp add: load_pretrained_def torch_load_def getitem_def sd)
  have keep: "\<forall>np \<in> set model. map_of net (fst np) = None \<longrightarrow> np \<in> set ?model'"
  proof (intro ballI impI)
    fix np assume np: "np \<in> set model" and "map_of net (fst np) = None"
    then have "map_of sd (fst np) = None" by (simp add: m)
    then have "(fst np, case map_of sd (fst np) of None \<Rightarrow> snd np
                                   | Some t \<Rightarrow> (snd np)\<lparr>data := t\<rparr>) = np" by simp
    with np show "np \<in> set ?model'" by (metis (no_types, lifting) image_eqI set_map)
  qed
  have calls: "torch_calls ?w' = torch_calls w @ [TorchLoad (load_path args), LoadStateDict sd False]"
    by (simp add: open_a_def called_def)
  have written: "fs ?w' = (fs w)(result_path L args := Some (TextFile
              (text_of (fs w (result_path L args)) @
               [LoadingModel (load_path args), LoadingResult ?r])))"
    by (simp add: open_a_def called_def)
  from run m keep calls written show ?thesis by blast
qed

theorem load_pretrained_drops_head_and_applies_rest_witness:
  "pretrained_log_name ex_args \<noteq> ''random'' \<and>
   fs ex_world_ckpt (load_path ex_args) = Some (CkptFile ex_checkpoint) \<and>
   map_of ex_checkpoint ''net'' = Some ex_net \<and>
   ''module.fc1.weight'' \<in> fst ` set ex_net \<and> ''module.fc1.bias'' \<in> fst ` set ex_net \<and>
   \<not> list_ex (mismatched
       [(''module.adapter.weight'', ex_tensor 30), (''module.pretrain_head'', ex_tensor 50)])
     ex_model \<and>
   fst (load_pretrained ex_lib ex_args (ex_model, ex_world_ckpt)) = None \<and>
   fst (snd (load_pretrained ex_lib ex_args (ex_model, ex_world_ckpt))) =
     [(''module.fc1.weight'', ex_param 1), (''module.fc1.bias'', ex_param 2),
      (''module.adapter.weight'', (ex_param 3)\<lparr>data := ex_tensor 30\<rparr>),
      (''module.encoder.weight'', ex_param 4)] \<and>
   text_of (fs (snd (snd (load_pretrained ex_lib ex_args (ex_model, ex_world_ckpt))))
                (result_path ex_lib ex_args)) =
     [LoadingModel ''checkpoints/best.pt'',
      LoadingResult (IncompatibleKeys
        [''module.fc1.weight'', ''module.fc1.bias'', ''module.encoder.weight'']
        [''module.pretrain_head''])]"
proof -
  have h1: "pretrained_log_name ex_args \<noteq> ''random''"
    by (simp add: ex_args_def)
  have h2: "fs ex_world_ckpt (load_path ex_args) = Some (CkptFile ex_checkpoint)"
    by (simp add: ex_world_ckpt_def ex_args_def)
  have h3: "map_of ex_checkpoint ''net'' = Some ex_net"
    by (simp add: ex_checkpoint_def)
  have h4: "''module.fc1.weight'' \<in> fst ` set ex_net"
    by (simp add: ex_net_def)
  have h5: "''module.fc1.bias'' \<in> fst ` set ex_net"
    by (simp add: ex_net_def)
  have h6: "[(''module.adapter.weight'', ex_tensor 30), (''module.pretrain_head'', ex_tensor 50)] =
            [kv \<leftarrow> ex_net. fst kv \<noteq> ''module.fc1.weight'' \<and> fst kv \<noteq> ''module.fc1.bias'']"
    by (simp add: ex_net_def)
  have h7: "\<forall>np \<in> set ex_model. \<not> mismatched
       [(''module.adapter.weight'', ex_tensor 30), (''module.pretrain_head'', ex_tensor 50)] np"
    by (simp add: ex_model_def mismatched_def ex_param_def ex_tensor_def)
  have r: "text_of (fs ex_world_ckpt (result_path ex_lib ex_args)) = []"
    by (simp add: ex_world_ckpt_def ex_world_def text_of_def result_path_def)
  from load_pretrained_drops_head_and_applies_rest [OF h1 h2 h3 h4 h5 h6 h7, of ex_lib]
  obtain model' r' w' where
    run: "load_pretrained ex_lib ex_args (ex_model, ex_world_ckpt) = (None, model', w')"
    and m: "model' = map (\<lambda>np. (fst np,
              case map_of [(''module.adapter.weight'', ex_tensor 30),
                           (''module.pretrain_head'', ex_tensor 50)] (fst np) of
                None \<Rightarrow> snd np | Some t \<Rightarrow> (snd np)\<lparr>data := t\<rparr>)) ex_model"
    and r': "r' = IncompatibleKeys
               [n \<leftarrow> map fst ex_model. map_of [(''module.adapter.weight'', ex_tensor 30),
                           (''module.pretrain_head'', ex_tensor 50)] n = None]
               [k \<leftarrow> map fst [(''module.adapter.weight'', ex_tensor 30),
                           (''module.pretrain_head'', ex_tensor 50)]. k \<notin> set (map fst ex_model)]"
    and f: "fs w' = (fs ex_world_ckpt)(result_path ex_lib ex_args := Some (TextFile
              (text_of (fs ex_world_ckpt (result_path ex_lib ex_args)) @
               [LoadingModel (load_path ex_args), LoadingResult r'])))"
    by blast
  have m': "model' = [(''module.fc1.weight'', ex_param 1), (''module.fc1.bias'', ex_param 2),
      (''module.adapter.weight'', (ex_param 3)\<lparr>data := ex_tensor 30\<rparr>),
      (''module.encoder.weight'', ex_param 4)]"
    unfolding m by (simp add: ex_model_def)
  have r'': "r' = IncompatibleKeys
        [''module.fc1.weight'', ''module.fc1.bias'', ''module.encoder.weight'']
        [''module.pretrain_head'']"
    unfolding r' by (simp add: ex_model_def)
  have t: "text_of (fs w' (result_path ex_lib ex_args)) =
     [LoadingModel ''checkpoints/best.pt'', LoadingResult r']"
    unfolding f r by (simp add: ex_args_def)
  from h7 have h7': "\<not> list_ex (mismatched
       [(''module.adapter.weight'', ex_tensor 30), (''module.pretrain_head'', ex_tensor 50)])
     ex_model"
    by (simp add: list_ex_iff)
  from h1 h2 h3 h4 h5 h7' run m' r'' t show ?thesis
    by simp
qed

section \<open>Properties of the tuning-mode selector\<close>

text \<open>
  Claim C5. A mode string other than \<^verbatim>\<open>adapter\<close>, \<^verbatim>\<open>classifier\<close> and \<^verbatim>\<open>tuning\<close> leaves
  the model and the world as they are, so no trainability flag changes. Each of the three
  recognised strings takes exactly one branch: \<^verbatim>\<open>adapter\<close> calls the model's adapter
  policy and nothing else, \<^verbatim>\<open>classifier\<close> calls its classifier policy and nothing else,
  and \<^verbatim>\<open>tuning\<close> marks every parameter trainable, changing neither names nor tensors.
\<close>

theorem tune_mode_dispatch:
  "(tune_mode args \<notin> {''adapter'', ''classifier'', ''tuning''} \<longrightarrow>
      select_tune_mode L args (model, w) = (model, w)) \<and>
   (tune_mode args = ''adapter'' \<longrightarrow>
      select_tune_mode L args (model, w) = (train_adapter L model, called TrainAdapter w)) \<and>
   (tune_mode args = ''classifier'' \<longrightarrow>
      select_tune_mode L args (model, w) = (train_classifier L model, called TrainClassifier w)) \<and>
   (tune_mode args = ''tuning'' \<longrightarrow>
      select_tune_mode L args (model, w) = (map (set_requires_grad True) model, w) \<and>
      list_all (\<lambda>np. requires_grad (snd np)) (fst (select_tune_mode L args (model, w))) \<and>
      map fst (fst (select_tune_mode L args (model, w))) = map fst model \<and>
      map (\<lambda>np. data (snd np)) (fst (select_tune_mode L args (model, w))) =
        map (\<lambda>np. data (snd np)) model)"
  by (simp add: select_tune_mode_def set_requires_grad_def list_all_iff comp_def)

theorem tune_mode_dispatch_witness:
  "select_tune_mode ex_lib (ex_args\<lparr>tune_mode := ''full''\<rparr>) (ex_model, ex_world) = (ex_model, ex_world) \<and>
   select_tune_mode ex_lib (ex_args\<lparr>tune_mode := ''adapter''\<rparr>) (ex_model, ex_world) =
     (train_adapter ex_lib ex_model, called TrainAdapter ex_world) \<and>
   select_tune_mode ex_lib (ex_args\<lparr>tune_mode := ''classifier''\<rparr>) (ex_model, ex_world) =
     (train_classifier ex_lib ex_model, called TrainClassifier ex_world) \<and>
   select_tune_mode ex_lib (ex_args\<lparr>tune_mode := ''tuning''\<rparr>) (ex_model, ex_world) =
     (map (set_requires_grad True) ex_model, ex_world)"
  using tune_mode_dispatch [of "ex_args\<lparr>tune_mode := ''full''\<rparr>" ex_lib ex_model ex_world]
    tune_mode_dispatch [of "ex_args\<lparr>tune_mode := ''adapter''\<rparr>" ex_lib ex_model ex_world]
    tune_mode_dispatch [of "ex_args\<lparr>tune_mode := ''classifier''\<rparr>" ex_lib ex_model ex_world]
    tune_mode_dispatch [of "ex_args\<lparr>tune_mode := ''tuning''\<rparr>" ex_lib ex_model ex_world]
  by simp

section \<open>Properties of the training loop\<close>

lemma model_call_calls: "torch_calls (snd (model_call L l x w)) = torch_calls w @ [Forward]"
  by (simp add: model_call_def called_def split_def Let_def)

lemma model_call_frame:
  "fs (snd (model_call L l x w)) = fs w" "console (snd (model_call L l x w)) = console w"
  "clock (snd (model_call L l x w)) = clock w" "ticks (snd (model_call L l x w)) = ticks w"
  by (simp_all add: model_call_def called_def split_def Let_def)

lemma train_step_calls:
  "torch_calls (snd (snd (train_step L x y (l, w)))) = torch_calls w @ step_calls"
  by (simp add: train_step_def step_calls_def called_def split_def Let_def model_call_calls)

lemma train_step_frame:
  "fs (snd (snd (train_step L x y (l, w)))) = fs w"
  "console (snd (snd (train_step L x y (l, w)))) = console w"
  by (simp_all add: train_step_def called_def split_def Let_def model_call_frame)

lemma train_step_result:
  "fst (train_step L x y (l, w)) =
     (fst (model_call L l x w), BCEWithLogitsLoss L (fst (model_call L l x w)) y)"
  by (simp add: train_step_def split_def Let_def)

lemma train_step_learner:
  "lrn_model (fst (snd (train_step L x y (l, w)))) =
     fst (adam_step L (opt_state (lrn_optimizer l)) (opt_lr (lrn_optimizer l))
            (weight_decay (lrn_optimizer l))
            (clip_grad_norm L (backward L (zero_grad L (lrn_model l)) x y (rng w)) (1 / 2)))"
  "lrn_scheduler (fst (snd (train_step L x y (l, w)))) =
     (lrn_scheduler l)\<lparr>last_epoch := Suc (last_epoch (lrn_scheduler l))\<rparr>"
  "lrn_training (fst (snd (train_step L x y (l, w)))) = lrn_training l"
  by (simp_all add: train_step_def split_def Let_def)

lemma log_progress_calls:
  "torch_calls (snd (log_progress L args e i n l (a, w))) = torch_calls w"
  by (simp add: log_progress_def time_time_def open_a_def print_def split_def Let_def)


lemma log_progress_output:
  "fs (snd (log_progress L args e i n l (a, w))) =
     (fs w)(result_path L args := Some (TextFile (text_of (fs w (result_path L args)) @
        [Progress e i n (train_loss a / of_nat log_interval)
           (f1_score L (train_true a) (train_pred a))
           (clock w (ticks w) - start_time a) (get_last_lr L (lrn_scheduler l))])))"
  "console (snd (log_progress L args e i n l (a, w))) =
     console w @ [ProgressConsole e i n (train_loss a / of_nat log_interval)
           (f1_score L (train_true a) (train_pred a)) (get_last_lr L (lrn_scheduler l))]"
  by (simp_all add: log_progress_def time_time_def open_a_def print_def split_def Let_def)

text \<open>What a completed pass of the loop body did.\<close>

lemma train_batch_None:
  assumes "train_batch L args ds e (i, idxs) (l, a, w) = (None, l', a', w')"
  shows "\<exists>batch p t loss w1.
    fetch ds idxs = Inr batch \<and>
    argmax_rows (fst (model_call L l (map fst batch) w)) = Inr p \<and>
    argmax_rows (map snd batch) = Inr t \<and>
    train_step L (map fst batch) (map snd batch) (l, w) =
      ((fst (model_call L l (map fst batch) w), loss), l', w1) \<and>
    (a', w') =
      (if i mod log_interval = 0 \<and> i > 0 then
         log_progress L args e i (loader_len ds) l'
           (a\<lparr>train_loss := train_loss a + loss, train_pred := train_pred a @ p,
              train_true := train_true a @ t\<rparr>, w1)
       else (a\<lparr>train_loss := train_loss a + loss, train_pred := train_pred a @ p,
               train_true := train_true a @ t\<rparr>, w1))"
proof -
  from assms obtain batch where f: "fetch ds idxs = Inr batch"
    by (auto simp: train_batch_def split: sum.splits)
  obtain out loss l1 w1 where
    ts: "train_step L (map fst batch) (map snd batch) (l, w) = ((out, loss), l1, w1)"
    by (metis prod.exhaust)
  from train_step_result [of L "map fst batch" "map snd batch" l w] ts
  have out: "out = fst (model_call L l (map fst batch) w)" by simp
  from assms f ts obtain p where p: "argmax_rows out = Inr p"
    by (auto simp: train_batch_def Let_def split: sum.splits)
  from assms f ts p obtain t where t: "argmax_rows (map snd batch) = Inr t"
    by (auto simp: train_batch_def Let_def split: sum.splits)
  from assms f ts p t have
    "l' = l1 \<and> (a', w') =
      (if i mod log_interval = 0 \<and> i > 0 then
         log_progress L args e i (loader_len ds) l1
           (a\<lparr>train_loss := train_loss a + loss, train_pred := train_pred a @ p,
              train_true := train_true a @ t\<rparr>, w1)
       else (a\<lparr>train_loss := train_loss a + loss, train_pred := train_pred a @ p,
               train_true := train_true a @ t\<rparr>, w1))"
    by (auto simp: train_batch_def Let_def split: prod.splits)
  with f ts p t out show ?thesis by blast
qed

lemma train_batch_calls:
  assumes "train_batch L args ds e (i, idxs) (l, a, w) = (None, l', a', w')"
  shows "torch_calls w' = torch_calls w @ step_calls"
    and "lrn_scheduler l' = (lrn_scheduler l)\<lparr>last_epoch := Suc (last_epoch (lrn_scheduler l))\<rparr>"
    and "lrn_training l' = lrn_training l"
proof -
  from train_batch_None [OF assms] obtain batch p t loss w1 where
    ts: "train_step L (map fst batch) (map snd batch) (l, w) =
      ((fst (model_call L l (map fst batch) w), loss), l', w1)"
    and aw: "(a', w') =
      (if i mod log_interval = 0 \<and> i > 0 then
         log_progress L args e i (loader_len ds) l'
           (a\<lparr>train_loss := train_loss a + loss, train_pred := train_pred a @ p,
              train_true := train_true a @ t\<rparr>, w1)
       else (a\<lparr>train_loss := train_loss a + loss, train_pred := train_pred a @ p,
               train_true := train_true a @ t\<rparr>, w1))"
    by auto
  from ts train_step_calls [of L "map fst batch" "map snd batch" l w]
  have c1: "torch_calls w1 = torch_calls w @ step_calls" by simp
  show "torch_calls w' = torch_calls w @ step_calls"
  proof (cases "i mod log_interval = 0 \<and> i > 0")
    case True
    with aw have "(a', w') = log_progress L args e i (loader_len ds) l'
           (a\<lparr>train_loss := train_loss a + loss, train_pred := train_pred a @ p,
              train_true := train_true a @ t\<rparr>, w1)"
      by simp
    from arg_cong [OF this, of snd] show ?thesis
      by (simp add: log_progress_calls c1)
  next
    case False
    with aw have "w' = w1" by simp
    with c1 show ?thesis by simp
  qed
  from ts train_step_learner(2,3) [of L "map fst batch" "map snd batch" l w]
  show "lrn_scheduler l' = (lrn_scheduler l)\<lparr>last_epoch := Suc (last_epoch (lrn_scheduler l))\<rparr>"
    and "lrn_training l' = lrn_training l"
    by simp_all
qed

lemma for_each_train_calls:
  "for_each (train_batch L args ds e) (enumerate k ibs) (l, a, w) = (None, l', a', w') \<Longrightarrow>
   torch_calls w' = torch_calls w @ concat (replicate (length ibs) step_calls) \<and>
   lrn_scheduler l' = (lrn_scheduler l)\<lparr>last_epoch := last_epoch (lrn_scheduler l) + length ibs\<rparr>"
proof (induction ibs arbitrary: k l a w)
  case Nil
  then show ?case by simp
next
  case (Cons ib ibs)
  obtain e1 l1 a1 w1 where b: "train_batch L args ds e (k, ib) (l, a, w) = (e1, l1, a1, w1)"
    by (cases "train_batch L args ds e (k, ib) (l, a, w)") auto
  with Cons.prems have e1: "e1 = None"
    by (cases e1) auto
  with Cons.prems b have rest:
    "for_each (train_batch L args ds e) (enumerate (Suc k) ibs) (l1, a1, w1) = (None, l', a', w')"
    by simp
  from b e1 have b': "train_batch L args ds e (k, ib) (l, a, w) = (None, l1, a1, w1)" by simp
  from Cons.IH [OF rest] train_batch_calls(1,2) [OF b'] show ?case
    by simp
qed

lemma batches_Nil [simp]: "batches n [] = []"
  by (subst batches.simps) simp

lemma batches_step:
  "0 < n \<Longrightarrow> xs \<noteq> [] \<Longrightarrow> batches n xs = take n xs # batches n (drop n xs)"
  by (subst batches.simps) simp

lemma batches_short: "0 < n \<Longrightarrow> xs \<noteq> [] \<Longrightarrow> length xs \<le> n \<Longrightarrow> batches n xs = [xs]"
  by (simp add: batches_step)

lemma concat_batches: "0 < n \<Longrightarrow> concat (batches n xs) = xs"
proof (induction n xs rule: batches.induct)
  case (1 n xs)
  show ?case
  proof (cases "xs = []")
    case True
    then show ?thesis by simp
  next
    case False
    with "1.prems" have u: "batches n xs = take n xs # batches n (drop n xs)"
      by (simp add: batches_step)
    from "1.IH" False "1.prems" have "concat (batches n (drop n xs)) = drop n xs"
      by simp
    with u show ?thesis by simp
  qed
qed



lemma range_from_zero: "range_int (start_epoch + 1) n = map int [0..<nat n]"
  by (simp add: range_int_def start_epoch_def)

lemma train_epoch_calls:
  assumes "train_epoch L args ds e (l, w) = (None, l', a', w')"
  shows "torch_calls w' =
           torch_calls w @ [ModelTrain, IterTrainLoader (fst (randperm L (rng w) (length ds)))] @
           concat (replicate (length (batches batch_size (fst (randperm L (rng w) (length ds)))))
                     step_calls)"
    and "lrn_scheduler l' = (lrn_scheduler l)\<lparr>last_epoch := last_epoch (lrn_scheduler l) +
           length (batches batch_size (fst (randperm L (rng w) (length ds))))\<rparr>"
proof -
  let ?perm = "fst (randperm L (rng w) (length ds))"
  let ?g = "snd (randperm L (rng w) (length ds))"
  let ?w2 = "snd (time_time (called ModelTrain w))"
  let ?w3 = "called (IterTrainLoader ?perm) (?w2\<lparr>rng := ?g\<rparr>)"
  let ?t = "fst (time_time (called ModelTrain w))"
  have r: "rng ?w2 = rng w" by (simp add: time_time_def called_def)
  obtain e1 l1 a1 w1 where fe:
    "for_each (train_batch L args ds e) (enumerate 0 (batches batch_size ?perm))
       (l\<lparr>lrn_training := True\<rparr>, init_accum ?t, ?w3) = (e1, l1, a1, w1)"
    by (cases "for_each (train_batch L args ds e) (enumerate 0 (batches batch_size ?perm)) (l\<lparr>lrn_training := True\<rparr>, init_accum ?t, ?w3)") auto
  from assms fe r have e1: "e1 = None"
    by (cases e1) (auto simp: train_epoch_def split_def Let_def)
  from assms fe r e1 have "l' = l1 \<and> w' = print (EpochLoss e (epoch args)
       (sum_list (loss_all a1) / of_nat (loader_len ds))) w1"
    by (auto simp: train_epoch_def split_def Let_def split: if_splits)
  moreover from for_each_train_calls [OF fe [unfolded e1]]
  have "torch_calls w1 = torch_calls ?w3 @
          concat (replicate (length (batches batch_size ?perm)) step_calls)"
    and "lrn_scheduler l1 = (lrn_scheduler l)\<lparr>last_epoch := last_epoch (lrn_scheduler l) +
           length (batches batch_size ?perm)\<rparr>"
    by simp_all
  ultimately show "torch_calls w' =
           torch_calls w @ [ModelTrain, IterTrainLoader ?perm] @
           concat (replicate (length (batches batch_size ?perm)) step_calls)"
    and "lrn_scheduler l' = (lrn_scheduler l)\<lparr>last_epoch := last_epoch (lrn_scheduler l) +
           length (batches batch_size ?perm)\<rparr>"
    by (simp_all add: print_def called_def time_time_def)
qed


lemma ex_train_epoch_ok:
  "fst (train_epoch ex_lib ex_args [ex_sample 1, ex_sample 2] 0 (ex_learner, ex_world)) = None"
  by (simp add: train_epoch_def train_batch_def train_step_def model_call_def fetch_def
      argmax_rows_def time_time_def called_def print_def loader_len_def batch_size_def
      batches_short ex_lib_def ex_learner_def make_learner_def ex_world_def ex_sample_def
      split_def Let_def log_interval_def)







section \<open>Output of the loops\<close>

lemma only_appends_refl [simp]: "only_appends rp w w"
  by (simp add: only_appends_def)

lemma only_appends_trans:
  "only_appends rp w0 w1 \<Longrightarrow> only_appends rp w1 w2 \<Longrightarrow> only_appends rp w0 w2"
  unfolding only_appends_def by (elim conjE exE) (intro conjI allI impI exI [where x = "_ @ _"]; simp)

lemma only_appends_same:
  "fs w = fs w0 \<Longrightarrow> console w = console w0 \<Longrightarrow> only_appends rp w0 w"
  by (simp add: only_appends_def)

lemma only_appends_open_a: "only_appends rp w (open_a rp cs w)"
  by (simp add: only_appends_def open_a_def)

lemma only_appends_print: "only_appends rp w (print c w)"
  by (simp add: only_appends_def print_def)

lemma only_appends_train_step: "only_appends rp w (snd (snd (train_step L x y (l, w))))"
  by (rule only_appends_same) (simp_all add: train_step_frame)

lemma only_appends_log_progress:
  "only_appends (result_path L args) w (snd (log_progress L args e i n l (a, w)))"
  by (simp add: only_appends_def log_progress_output)

lemma only_appends_train_batch:
  "only_appends (result_path L args) w (snd (snd (snd (train_batch L args ds e ib (l, a, w)))))"
proof -
  obtain i idxs where ib: "ib = (i, idxs)" by (cases ib)
  show ?thesis
    unfolding ib train_batch_def
    by (auto simp: split_def Let_def only_appends_train_step
        intro: only_appends_trans [OF only_appends_train_step only_appends_log_progress]
        split: sum.splits)
qed

lemma for_each_only_appends:
  assumes "\<And>x s. only_appends rp (wld s) (wld (snd (body x s)))"
  shows "only_appends rp (wld s) (wld (snd (for_each body xs s)))"
proof (induction xs arbitrary: s)
  case Nil
  show ?case by simp
next
  case (Cons x xs)
  obtain e1 s1 where b: "body x s = (e1, s1)" by (cases "body x s")
  from assms [of s x] b have 1: "only_appends rp (wld s) (wld s1)" by simp
  show ?case
  proof (cases e1)
    case None
    with b have "for_each body (x # xs) s = for_each body xs s1" by simp
    with only_appends_trans [OF 1 Cons.IH [of s1]] show ?thesis by simp
  next
    case (Some err)
    with b 1 show ?thesis by simp
  qed
qed

lemma only_appends_called: "only_appends rp w (called c w)"
  by (rule only_appends_same) (simp_all add: called_def)

lemma only_appends_train_batch_state:
  "only_appends (result_path L args) (snd (snd s))
     (snd (snd (snd (train_batch L args ds e ib s))))"
  by (cases s rule: prod_cases3) (simp add: only_appends_train_batch)

lemma only_appends_train_loop:
  "only_appends (result_path L args) w
     (snd (snd (snd (for_each (train_batch L args ds e) ibs (l, a, w)))))"
  using for_each_only_appends [where wld = "\<lambda>s. snd (snd s)" and body = "train_batch L args ds e"
      and rp = "result_path L args" and s = "(l, a, w)" and xs = ibs,
      OF only_appends_train_batch_state]
  by simp

lemma only_appends_train_epoch:
  "only_appends (result_path L args) w (snd (snd (snd (train_epoch L args ds e (l, w)))))"
proof -
  let ?rp = "result_path L args"
  let ?w2 = "snd (time_time (called ModelTrain w))"
  let ?t = "fst (time_time (called ModelTrain w))"
  let ?perm = "fst (randperm L (rng ?w2) (length ds))"
  let ?g = "snd (randperm L (rng ?w2) (length ds))"
  let ?w3 = "called (IterTrainLoader ?perm) (?w2\<lparr>rng := ?g\<rparr>)"
  let ?r = "for_each (train_batch L args ds e) (enumerate 0 (batches batch_size ?perm))
              (l\<lparr>lrn_training := True\<rparr>, init_accum ?t, ?w3)"
  have "only_appends ?rp w ?w3"
    by (rule only_appends_same) (simp_all add: called_def time_time_def)
  from only_appends_trans [OF this only_appends_train_loop]
  have 1: "only_appends ?rp w (snd (snd (snd ?r)))" .
  have 2: "\<And>c. only_appends ?rp w (print c (snd (snd (snd ?r))))"
    by (rule only_appends_trans [OF 1 only_appends_print])
  obtain e1 l1 a1 w1 where r: "?r = (e1, l1, a1, w1)" by (cases ?r) auto
  from 1 2 r show ?thesis
    by (cases e1) (simp_all add: train_epoch_def split_def Let_def)
qed

lemma eval_batch_frame:
  "fs (snd (snd (eval_batch L l ib (bufs, w)))) = fs w"
  "console (snd (snd (eval_batch L l ib (bufs, w)))) = console w"
  by (cases ib; simp add: eval_batch_def split_def Let_def model_call_frame split: option.splits)+

lemma for_each_frame:
  assumes "\<And>x s. f (wld (snd (body x s))) = f (wld s)"
  shows "f (wld (snd (for_each body xs s))) = f (wld s)"
proof (induction xs arbitrary: s)
  case Nil
  show ?case by simp
next
  case (Cons x xs)
  obtain e1 s1 where b: "body x s = (e1, s1)" by (cases "body x s")
  from assms [of x s] b have 1: "f (wld s1) = f (wld s)" by simp
  show ?case
    using b 1 Cons.IH [of s1] by (cases e1) simp_all
qed

lemma eval_batch_frame_state:
  "fs (snd (snd (eval_batch L l ib s))) = fs (snd s)"
  "console (snd (snd (eval_batch L l ib s))) = console (snd s)"
  by (cases s; simp add: eval_batch_frame)+

lemma eval_loop_frame:
  "fs (snd (snd (snd (eval_loop L test_set (l, w))))) = fs w"
  "console (snd (snd (snd (eval_loop L test_set (l, w))))) = console w"
proof -
  let ?r = "for_each (eval_batch L (l\<lparr>lrn_training := False\<rparr>))
              (enumerate 0 (batches batch_size test_set)) (None, called ModelEval w)"
  have "fs (snd (snd ?r)) = fs (snd (None, called ModelEval w))"
    using for_each_frame [where f = fs
        and wld = "\<lambda>s :: (row list \<times> row list) option \<times> world. snd s"
        and body = "eval_batch L (l\<lparr>lrn_training := False\<rparr>)", OF eval_batch_frame_state(1)]
    by simp
  moreover have "console (snd (snd ?r)) = console (snd (None, called ModelEval w))"
    using for_each_frame [where f = console
        and wld = "\<lambda>s :: (row list \<times> row list) option \<times> world. snd s"
        and body = "eval_batch L (l\<lparr>lrn_training := False\<rparr>)", OF eval_batch_frame_state(2)]
    by simp
  ultimately show "fs (snd (snd (snd (eval_loop L test_set (l, w))))) = fs w"
    and "console (snd (snd (snd (eval_loop L test_set (l, w))))) = console w"
    by (simp_all add: eval_loop_def split_def Let_def called_def)
qed

lemma write_report_output:
  "fs (write_report L args e n losses (pr, rc, f1) w) =
     (fs w)(result_path L args := Some (TextFile (text_of (fs w (result_path L args)) @
        [NumberOfEpochs e, NumberOfTestingData n, Precision pr, Recall rc, F1Score f1,
         AllLoss losses, BlankLine])))"
  "console (write_report L args e n losses (pr, rc, f1) w) =
     console w @ [NumberOfTestingData n, Precision pr, Recall rc, F1Score f1]"
  by (simp_all add: write_report_def open_a_def print_def Let_def)

lemma only_appends_write_report:
  "only_appends (result_path L args) w (write_report L args e n losses report w)"
  by (cases report) (auto simp: only_appends_def write_report_output)

lemma only_appends_run_epoch:
  "only_appends (result_path L args) w
     (snd (snd (run_epoch L args train_set test_set n e (l, w))))"
proof -
  let ?rp = "result_path L args"
  obtain e1 l1 a1 w1 where te: "train_epoch L args train_set e (l, w) = (e1, l1, a1, w1)"
    by (cases "train_epoch L args train_set e (l, w)") auto
  from only_appends_train_epoch [of L args w train_set e l] te
  have 1: "only_appends ?rp w w1" by simp
  obtain e2 l2 bufs w2 where ev: "eval_loop L test_set (l1, w1) = (e2, l2, bufs, w2)"
    by (cases "eval_loop L test_set (l1, w1)") auto
  from eval_loop_frame [of L test_set l1 w1] ev
  have "only_appends ?rp w1 w2" by (simp add: only_appends_same)
  from only_appends_trans [OF 1 this] have 2: "only_appends ?rp w w2" .
  have 3: "\<And>r. only_appends ?rp w (write_report L args e n (loss_all a1) r w2)"
    by (rule only_appends_trans [OF 2 only_appends_write_report])
  from 1 2 3 te ev show ?thesis
    by (auto simp: run_epoch_def split: option.splits sum.splits)
qed



section \<open>Properties of the evaluation loop\<close>

lemma eval_batch_rest:
  "\<not> lrn_training l \<Longrightarrow>
   eval_batch L l (Suc k, b) (Some (yp, yt), w) =
     (None, Some (yp @ forward_eval L (lrn_model l) (map fst b), yt @ map snd b),
      called Forward w)"
  by (simp add: eval_batch_def model_call_def)

lemma eval_batch_first:
  "\<not> lrn_training l \<Longrightarrow>
   eval_batch L l (0, b) (bufs, w) =
     (None, Some (forward_eval L (lrn_model l) (map fst b), map snd b), called Forward w)"
  by (simp add: eval_batch_def model_call_def)

lemma eval_for_each_rest:
  assumes "\<not> lrn_training l"
  shows "for_each (eval_batch L l) (enumerate (Suc k) bs) (Some (yp, yt), w) =
    (None,
     Some (yp @ concat (map (\<lambda>b. forward_eval L (lrn_model l) (map fst b)) bs),
           yt @ concat (map (map snd) bs)),
     w\<lparr>torch_calls := torch_calls w @ replicate (length bs) Forward\<rparr>)"
proof (induction bs arbitrary: k yp yt w)
  case Nil
  show ?case by simp
next
  case (Cons b bs)
  show ?case
    by (simp add: eval_batch_rest [OF assms] Cons.IH called_def replicate_app_Cons_same)
qed

lemma eval_loop_nonempty:
  assumes "test_set \<noteq> []"
  shows "eval_loop L test_set (l, w) =
    (None, l\<lparr>lrn_training := False\<rparr>,
     Some (concat (map (\<lambda>b. forward_eval L (lrn_model l) (map fst b))
                    (batches batch_size test_set)),
           map snd test_set),
     w\<lparr>torch_calls := torch_calls w @
          ModelEval # replicate (length (batches batch_size test_set)) Forward\<rparr>)"
proof -
  let ?l1 = "l\<lparr>lrn_training := False\<rparr>"
  have nt: "\<not> lrn_training ?l1" by simp
  from assms have u: "batches batch_size test_set =
      take batch_size test_set # batches batch_size (drop batch_size test_set)"
    by (simp add: batches_step batch_size_def)
  have c: "concat (map (map snd) (batches batch_size test_set)) = map snd test_set"
    by (simp add: map_concat [symmetric] concat_batches batch_size_def)
  let ?b = "take batch_size test_set" and ?bs = "batches batch_size (drop batch_size test_set)"
  have "for_each (eval_batch L ?l1) (enumerate 0 (?b # ?bs)) (None, called ModelEval w) =
    (None,
     Some (concat (map (\<lambda>b. forward_eval L (lrn_model ?l1) (map fst b)) (?b # ?bs)),
           concat (map (map snd) (?b # ?bs))),
     w\<lparr>torch_calls := torch_calls w @ ModelEval # replicate (length (?b # ?bs)) Forward\<rparr>)"
    by (simp add: eval_batch_first [OF nt] eval_for_each_rest [OF nt] called_def)
  then show ?thesis
    unfolding eval_loop_def u [symmetric] c by (simp add: called_def)
qed

lemma eval_loop_empty:
  "eval_loop L [] (l, w) = (None, l\<lparr>lrn_training := False\<rparr>, None, called ModelEval w)"
  by (simp add: eval_loop_def)

lemma length_concat_forward:
  assumes "\<And>x. length (fwd x) = length x"
  shows "length (concat (map (\<lambda>b. fwd (map fst b)) bs)) = length (concat bs)"
  by (induction bs) (simp_all add: assms)

lemma concat_rowwise:
  "concat (map (\<lambda>b. map f (map fst b)) bs) = map (\<lambda>s. f (fst s)) (concat bs)"
  by (induction bs) simp_all

lemma calc_metrics_Inr:
  assumes "calc_metrics L (Some (y_pred, y_true)) = Inr (t, p, r)"
  shows "t = map argmax y_true" "p = map argmax y_pred"
    "r = precision_recall_fscore_support L t p"
  using assms
  by (auto simp: calc_metrics_def argmax_rows_def split: sum.splits if_splits)

lemma argmax_from_le: "\<not> best < v \<Longrightarrow> argmax_from best bi i (replicate m v) = bi"
  by (induction m arbitrary: i) simp_all

lemma argmax_from_zeros:
  "argmax_from 0 bi i (replicate k 0 @ 1 # rest) = argmax_from 1 (i + k) (Suc (i + k)) rest"
  by (induction k arbitrary: i) simp_all

lemma argmax_one_hot: "argmax (replicate k 0 @ 1 # replicate m 0) = k"
proof (cases k)
  case 0
  then show ?thesis by (simp add: argmax_def argmax_from_le)
next
  case (Suc j)
  then show ?thesis by (simp add: argmax_def argmax_from_zeros argmax_from_le)
qed

text \<open>
  Claim C4, amended. For a test set that is not empty, the evaluation loop binds both
  buffers: the label buffer is the labels of the test set in its own order, so has one
  row for each of the \<open>N\<close> samples, and the prediction buffer is the model's outputs for
  the batches of the test set, batch after batch in the order of the set; it has \<open>N\<close>
  rows when the model returns one row for each window, and its row \<open>i\<close> is the output for
  sample \<open>i\<close> when the model works row by row. The metrics are then computed on the
  arg-max of each row of the two buffers, and the arg-max of a one-hot row is the position
  of its one.
\<close>

theorem eval_buffers_rows_and_order:
  assumes "test_set \<noteq> []"
  shows "\<exists>y_pred w'.
    eval_loop L test_set (l, w) =
      (None, l\<lparr>lrn_training := False\<rparr>, Some (y_pred, map snd test_set), w') \<and>
    y_pred = concat (map (\<lambda>b. forward_eval L (lrn_model l) (map fst b))
                      (batches batch_size test_set)) \<and>
    concat (batches batch_size test_set) = test_set \<and>
    length (map snd test_set) = length test_set \<and>
    ((\<forall>x. length (forward_eval L (lrn_model l) x) = length x) \<longrightarrow>
       length y_pred = length test_set) \<and>
    (\<forall>f. (\<forall>x. forward_eval L (lrn_model l) x = map f x) \<longrightarrow>
       y_pred = map (\<lambda>s. f (fst s)) test_set) \<and>
    (\<forall>t p r. calc_metrics L (Some (y_pred, map snd test_set)) = Inr (t, p, r) \<longrightarrow>
       t = map argmax (map snd test_set) \<and> p = map argmax y_pred \<and>
       r = precision_recall_fscore_support L t p) \<and>
    argmax (replicate k 0 @ 1 # replicate m 0) = k"
proof -
  let ?yp = "concat (map (\<lambda>b. forward_eval L (lrn_model l) (map fst b))
                      (batches batch_size test_set))"
  have c: "concat (batches batch_size test_set) = test_set"
    by (simp add: concat_batches batch_size_def)
  have len: "(\<forall>x. length (forward_eval L (lrn_model l) x) = length x) \<longrightarrow>
       length ?yp = length test_set"
  proof
    assume "\<forall>x. length (forward_eval L (lrn_model l) x) = length x"
    then have "length ?yp = length (concat (batches batch_size test_set))"
      by (intro length_concat_forward) simp
    with c show "length ?yp = length test_set" by simp
  qed
  have row: "\<forall>f. (\<forall>x. forward_eval L (lrn_model l) x = map f x) \<longrightarrow>
       ?yp = map (\<lambda>s. f (fst s)) test_set"
  proof (intro allI impI)
    fix f assume "\<forall>x. forward_eval L (lrn_model l) x = map f x"
    then have "?yp = concat (map (\<lambda>b. map f (map fst b)) (batches batch_size test_set))"
      by simp
    also have "\<dots> = map (\<lambda>s. f (fst s)) (concat (batches batch_size test_set))"
      by (rule concat_rowwise)
    finally show "?yp = map (\<lambda>s. f (fst s)) test_set" by (simp add: c)
  qed
  have cm: "\<forall>t p r. calc_metrics L (Some (?yp, map snd test_set)) = Inr (t, p, r) \<longrightarrow>
       t = map argmax (map snd test_set) \<and> p = map argmax ?yp \<and>
       r = precision_recall_fscore_support L t p"
    using calc_metrics_Inr by blast
  from eval_loop_nonempty [OF assms, of L l w] c len row cm argmax_one_hot [of k m]
  show ?thesis by (intro exI conjI) simp_all
qed

theorem eval_buffers_rows_and_order_witness:
  "[ex_sample 3, ex_sample 4] \<noteq> [] \<and>
   (\<forall>x. length (forward_eval ex_lib (lrn_model ex_learner) x) = length x) \<and>
   fst (eval_loop ex_lib [ex_sample 3, ex_sample 4] (ex_learner, ex_world)) = None \<and>
   fst (snd (snd (eval_loop ex_lib [ex_sample 3, ex_sample 4] (ex_learner, ex_world)))) =
     Some ([[1, 0], [1, 0]], [[1, 0], [1, 0]]) \<and>
   calc_metrics ex_lib (Some ([[1, 0], [1, 0]], [[1, 0], [1, 0]])) =
     Inr ([0, 0], [0, 0], 0, 0, 0)"
proof -
  have h: "[ex_sample 3, ex_sample 4] \<noteq> []" by simp
  have fw: "\<forall>x. forward_eval ex_lib (lrn_model ex_learner) x = map (\<lambda>x. [1, 0]) x"
    by (simp add: ex_lib_def)
  then have ln: "\<forall>x. length (forward_eval ex_lib (lrn_model ex_learner) x) = length x"
    by simp
  have sn: "map snd [ex_sample 3, ex_sample 4] = [[1, 0], [1, 0]]"
    by (simp add: ex_sample_def)
  have cmx: "calc_metrics ex_lib (Some ([[1, 0], [1, 0]], [[1, 0], [1, 0]])) =
     Inr ([0, 0], [0, 0], 0, 0, 0)"
    by (simp add: calc_metrics_def argmax_rows_def argmax_def ex_lib_def)
  from eval_buffers_rows_and_order [OF h, of ex_lib ex_learner ex_world 0 0] fw
  obtain y_pred w' where
    ev: "eval_loop ex_lib [ex_sample 3, ex_sample 4] (ex_learner, ex_world) =
      (None, ex_learner\<lparr>lrn_training := False\<rparr>,
       Some (y_pred, map snd [ex_sample 3, ex_sample 4]), w')"
    and yp: "y_pred = map (\<lambda>s. [1, 0]) [ex_sample 3, ex_sample 4]"
    by blast
  from h ln ev yp sn cmx show ?thesis by simp
qed

text \<open>
  Claim C4 as stated fails for \<open>N = 0\<close>: the loop over an empty test loader binds neither
  buffer, and line 177 raises \<^verbatim>\<open>NameError\<close> after a training epoch that completed.
\<close>

theorem empty_test_set_counterexample:
  "fst (train_epoch ex_lib ex_args [ex_sample 1, ex_sample 2] 0 (ex_learner, ex_world)) = None \<and>
   fst (snd (snd (eval_loop ex_lib [] (ex_learner, ex_world)))) = None \<and>
   calc_metrics ex_lib None = Inl (NameError ''y_true'') \<and>
   fst (run_epoch ex_lib ex_args [ex_sample 1, ex_sample 2] [] 0 0 (ex_learner, ex_world)) =
     Some (NameError ''y_true'')"
proof -
  obtain l1 a1 w1 where te:
    "train_epoch ex_lib ex_args [ex_sample 1, ex_sample 2] 0 (ex_learner, ex_world) =
       (None, l1, a1, w1)"
    using ex_train_epoch_ok
    by (cases "train_epoch ex_lib ex_args [ex_sample 1, ex_sample 2] 0 (ex_learner, ex_world)")
      auto
  have cm: "calc_metrics ex_lib None = Inl (NameError ''y_true'')"
    by (simp add: calc_metrics_def)
  from te cm show ?thesis
    by (simp add: run_epoch_def eval_loop_empty)
qed



section \<open>Files written by a run\<close>

lemma only_appends_load_pretrained:
  "only_appends (result_path L args) w (snd (snd (load_pretrained L args (model, w))))"
proof -
  have 1: "\<And>c cs. only_appends (result_path L args) w
      (open_a (result_path L args) cs (called c (called (TorchLoad (load_path args)) w)))"
    by (rule only_appends_trans [OF _ only_appends_open_a])
      (rule only_appends_same; simp add: called_def)
  have 2: "\<And>c. only_appends (result_path L args) w (called c (called (TorchLoad (load_path args)) w))"
    by (rule only_appends_same; simp add: called_def)
  show ?thesis
    by (auto simp: load_pretrained_def torch_load_def 1 2 only_appends_called
        split: option.splits file_content.splits sum.splits prod.splits)
qed

lemma only_appends_select_tune_mode:
  "only_appends rp w (snd (select_tune_mode L args (model, w)))"
  by (simp add: select_tune_mode_def only_appends_called)

lemma only_appends_run_epoch_state:
  "only_appends (result_path L args) (snd s)
     (snd (snd (run_epoch L args train_set test_set n e s)))"
  by (cases s) (simp add: only_appends_run_epoch)

lemma only_appends_epochs:
  "only_appends (result_path L args) w
     (snd (snd (for_each (run_epoch L args train_set test_set n) es (l, w))))"
  using for_each_only_appends [where wld = "\<lambda>s :: learner \<times> world. snd s"
      and body = "run_epoch L args train_set test_set n"
      and rp = "result_path L args" and s = "(l, w)" and xs = es,
      OF only_appends_run_epoch_state]
  by simp

lemma only_appends_script:
  "only_appends (result_path L args) (write_args L args w) (snd (script L args w))"
proof -
  let ?rp = "result_path L args"
  let ?w1 = "write_args L args w"
  let ?w2 = "fix_seeds ?w1"
  have 2: "only_appends ?rp ?w1 ?w2"
    by (rule only_appends_same) (simp_all add: fix_seeds_def)
  have 3: "\<And>g. only_appends ?rp ?w1 (?w2\<lparr>rng := g\<rparr>)"
    by (rule only_appends_same) (simp_all add: fix_seeds_def)
  have 4: "\<And>g m. only_appends ?rp ?w1 (snd (select_tune_mode L args (m, ?w2\<lparr>rng := g\<rparr>)))"
    by (rule only_appends_trans [OF 3 only_appends_select_tune_mode])
  have 5: "\<And>g m m'. only_appends ?rp ?w1
      (snd (snd (load_pretrained L args (m', snd (select_tune_mode L args (m, ?w2\<lparr>rng := g\<rparr>))))))"
    by (rule only_appends_trans [OF 4 only_appends_load_pretrained])
  have 6: "\<And>g m m' tr te n es l. only_appends ?rp ?w1
      (snd (snd (for_each (run_epoch L args tr te n) es
         (l, snd (snd (load_pretrained L args (m', snd (select_tune_mode L args (m, ?w2\<lparr>rng := g\<rparr>)))))))))"
    by (rule only_appends_trans [OF 5 only_appends_epochs])
  show ?thesis
    unfolding script_def Let_def
    by (auto simp: split_def 2 split: sum.splits option.splits prod.splits
        intro: 5 [simplified] 6 [simplified])
qed

lemma script_result_file:
  "(\<forall>p. p \<noteq> result_path L args \<longrightarrow> fs (snd (script L args w)) p = fs w p) \<and>
   (\<exists>new. text_of (fs (snd (script L args w)) (result_path L args)) = ArgsLine args # new)"
proof -
  from only_appends_script [of L args w]
  have fr: "\<forall>p. p \<noteq> result_path L args \<longrightarrow>
              fs (snd (script L args w)) p = fs (write_args L args w) p"
    and "\<exists>new. text_of (fs (snd (script L args w)) (result_path L args)) =
           text_of (fs (write_args L args w) (result_path L args)) @ new"
    by (simp_all add: only_appends_def)
  then show ?thesis
    by (simp add: write_args_def open_w_def)
qed

lemma ex_train_epoch_any:
  "fst (train_epoch ex_lib args [([[1]], [1, 0]), ([[2]], [0, 1])] e (l, w)) = None"
  by (simp add: train_epoch_def train_batch_def train_step_def model_call_def fetch_def
      argmax_rows_def time_time_def called_def print_def loader_len_def batch_size_def
      batches_short ex_lib_def split_def Let_def log_interval_def)

lemma ex_run_epoch_any:
  "fst (run_epoch ex_lib args [([[1]], [1, 0]), ([[2]], [0, 1])] [([[3]], [1, 0])] n e (l, w)) = None"
proof -
  obtain l1 a1 w1 where te:
    "train_epoch ex_lib args [([[1]], [1, 0]), ([[2]], [0, 1])] e (l, w) = (None, l1, a1, w1)"
    using ex_train_epoch_any [of args e l w]
    by (cases "train_epoch ex_lib args [([[1]], [1, 0]), ([[2]], [0, 1])] e (l, w)") auto
  have b: "batches batch_size [([[3::rat]], [1::rat, 0])] = [[([[3]], [1, 0])]]"
    by (simp add: batches_short batch_size_def)
  have ev: "eval_loop ex_lib [([[3]], [1, 0])] (l1, w1) =
      (None, l1\<lparr>lrn_training := False\<rparr>, Some ([[1, 0]], [[1, 0]]),
       w1\<lparr>torch_calls := torch_calls w1 @ [ModelEval, Forward]\<rparr>)"
    by (simp add: eval_loop_nonempty b) (simp add: ex_lib_def)
  have cm: "calc_metrics ex_lib (Some ([[1, 0]], [[1, 0]])) = Inr ([0], [0], 0, 0, 0)"
    by (simp add: calc_metrics_def argmax_rows_def argmax_def ex_lib_def)
  from te ev cm show ?thesis
    by (simp add: run_epoch_def)
qed

lemma result_path_neq [simp]:
  "result_path L args \<noteq> CHR ''.'' # s" "CHR ''.'' # s \<noteq> result_path L args"
  "result_path L args \<noteq> CHR ''c'' # s" "CHR ''c'' # s \<noteq> result_path L args"
  by (simp_all add: result_path_def)

lemma ex_load_ok:
  assumes "fs w ''checkpoints/best.pt'' = Some (CkptFile ex_checkpoint)"
  shows "fst (load_pretrained ex_lib ex_args
           ([(''module.fc1.weight'', ex_param 1),
             (''module.adapter.weight'', (ex_param 3)\<lparr>requires_grad := True\<rparr>)], w)) = None"
proof -
  have a: "pretrained_log_name ex_args \<noteq> ''random''" "load_path ex_args = ''checkpoints/best.pt''"
    by (simp_all add: ex_args_def)
  show ?thesis
    by (simp add: load_pretrained_def torch_load_def a assms getitem_def pop_def
        load_state_dict_def mismatched_def ex_checkpoint_def ex_net_def ex_param_def
        ex_tensor_def)
qed

lemma ex_script_ok: "fst (script ex_lib ex_args ex_world_full) = None"
proof -
  let ?w2 = "fix_seeds (write_args ex_lib ex_args ex_world_full)"
  have tp: "training_data_path ex_args = ''./preprocessed_data/BGL_2k_training_data.npz''"
    and sp: "testing_data_path ex_args = ''./preprocessed_data/BGL_2k_testing_data.npz''"
    by (simp_all add: training_data_path_def testing_data_path_def ex_args_def)
  have f1: "fs ?w2 (training_data_path ex_args) = Some (NpzFile ex_training_data)"
    unfolding tp by (simp add: fix_seeds_def write_args_def open_w_def ex_world_full_def)
  have f2: "fs ?w2 (testing_data_path ex_args) = Some (NpzFile ex_testing_data)"
    unfolding sp by (simp add: fix_seeds_def write_args_def open_w_def ex_world_full_def)
  have f3: "fs ?w2 ''checkpoints/best.pt'' = Some (CkptFile ex_checkpoint)"
    by (simp add: fix_seeds_def write_args_def open_w_def ex_world_full_def)
  have n1: "np_load (training_data_path ex_args) ?w2 = Inr ex_training_data"
    by (simp add: np_load_def f1)
  have n2: "np_load (testing_data_path ex_args) ?w2 = Inr ex_testing_data"
    by (simp add: np_load_def f2)
  have g1: "DataGenerator ex_lib (npz_x ex_training_data) (npz_y ex_training_data) ws =
      [([[1]], [1, 0]), ([[2]], [0, 1])]" for ws
    by (simp add: ex_lib_def ex_training_data_def)
  have g2: "DataGenerator ex_lib (npz_x ex_testing_data) (npz_y ex_testing_data) ws =
      [([[3]], [1, 0])]" for ws
    by (simp add: ex_lib_def ex_testing_data_def)
  let ?m = "fst (Model ex_lib (model_hparams ex_args) (rng ?w2))"
  let ?g = "snd (Model ex_lib (model_hparams ex_args) (rng ?w2))"
  let ?s = "select_tune_mode ex_lib ex_args (?m, ?w2\<lparr>rng := ?g\<rparr>)"
  have s3: "fs (snd ?s) ''checkpoints/best.pt'' = Some (CkptFile ex_checkpoint)"
    using f3 by (simp add: select_tune_mode_def called_def)
  have dp: "DataParallel (fst ?s) =
      [(''module.fc1.weight'', ex_param 1),
       (''module.adapter.weight'', (ex_param 3)\<lparr>requires_grad := True\<rparr>)]"
    by (simp add: select_tune_mode_def DataParallel_def ex_lib_def ex_args_def
        set_requires_grad_def ex_param_def)
  have lp: "fst (load_pretrained ex_lib ex_args (DataParallel (fst ?s), snd ?s)) = None"
    unfolding dp by (rule ex_load_ok [OF s3])
  have ep: "range_int (start_epoch + 1) (epoch ex_args) = [0]"
    by (simp add: range_from_zero ex_args_def)
  have fe: "fst (for_each (run_epoch ex_lib ex_args [([[1]], [1, 0]), ([[2]], [0, 1])]
                 [([[3]], [1, 0])] n) [0] (l, w)) = None" for n l w
    using ex_run_epoch_any [of ex_args n 0 l w]
    by (cases "run_epoch ex_lib ex_args [([[1]], [1, 0]), ([[2]], [0, 1])] [([[3]], [1, 0])] n 0 (l, w)")
      auto
  obtain m2 w4 where l4: "load_pretrained ex_lib ex_args (DataParallel (fst ?s), snd ?s) = (None, m2, w4)"
    using lp by (cases "load_pretrained ex_lib ex_args (DataParallel (fst ?s), snd ?s)") auto
  show ?thesis
    unfolding script_def Let_def n1 n2
    by (simp add: split_def g1 g2 l4 ep ex_run_epoch_any)
qed

text \<open>
  Claim C7, amended. Over an entire run, whether it completes or raises, every file other
  than the one at the path derived from the configuration is left as it was, so no model
  checkpoint is written. The result file is opened for writing once, at line 39: whatever
  it held is replaced by the line of arguments, and what the run writes later follows that
  line. The two later writers, the checkpoint loader and the pass over one epoch, only
  append to the result file and touch no other file.
\<close>

theorem result_file_is_the_only_artifact:
  "(\<forall>p. p \<noteq> result_path L args \<longrightarrow> fs (snd (script L args w)) p = fs w p) \<and>
   (\<exists>new. text_of (fs (snd (script L args w)) (result_path L args)) = ArgsLine args # new) \<and>
   (\<forall>p. p \<noteq> result_path L args \<longrightarrow>
        fs (snd (snd (load_pretrained L args (model, w)))) p = fs w p) \<and>
   (\<exists>new. text_of (fs (snd (snd (load_pretrained L args (model, w)))) (result_path L args)) =
      text_of (fs w (result_path L args)) @ new) \<and>
   (\<forall>p. p \<noteq> result_path L args \<longrightarrow>
        fs (snd (snd (run_epoch L args train_set test_set n e (l, w)))) p = fs w p) \<and>
   (\<exists>new. text_of (fs (snd (snd (run_epoch L args train_set test_set n e (l, w))))
             (result_path L args)) =
      text_of (fs w (result_path L args)) @ new)"
  using script_result_file [of L args w]
    only_appends_load_pretrained [of L args w model]
    only_appends_run_epoch [of L args w train_set test_set n e l]
  unfolding only_appends_def by blast

theorem result_file_is_the_only_artifact_witness:
  "''checkpoints/best.pt'' \<noteq> result_path ex_lib ex_args \<and>
   fs (snd (script ex_lib ex_args ex_world_full)) ''checkpoints/best.pt'' =
     Some (CkptFile ex_checkpoint) \<and>
   (\<exists>new. text_of (fs (snd (script ex_lib ex_args ex_world_full)) (result_path ex_lib ex_args)) =
      ArgsLine ex_args # new)"
proof -
  have n: "''checkpoints/best.pt'' \<noteq> result_path ex_lib ex_args"
    by simp
  have f: "fs ex_world_full ''checkpoints/best.pt'' = Some (CkptFile ex_checkpoint)"
    by (simp add: ex_world_full_def)
  from result_file_is_the_only_artifact
    [of ex_lib ex_args ex_world_full ex_model "[]" "[]" 0 0 ex_learner] n f
  show ?thesis by simp
qed

text \<open>
  Claim C7 as stated fails: a result file that already holds text is truncated by a run
  that completes, and begins with the run's line of arguments afterwards.
\<close>

theorem result_file_truncated_counterexample:
  "text_of (fs ex_world_full (result_path ex_lib ex_args)) = [BlankLine] \<and>
   fst (script ex_lib ex_args ex_world_full) = None \<and>
   take 1 (text_of (fs (snd (script ex_lib ex_args ex_world_full)) (result_path ex_lib ex_args))) =
     [ArgsLine ex_args]"
proof -
  have old: "text_of (fs ex_world_full (result_path ex_lib ex_args)) = [BlankLine]"
    by (simp add: ex_world_full_def)
  from script_result_file [of ex_lib ex_args ex_world_full] obtain new where
    "text_of (fs (snd (script ex_lib ex_args ex_world_full)) (result_path ex_lib ex_args)) =
       ArgsLine ex_args # new"
    by blast
  with old ex_script_ok show ?thesis by simp
qed

section \<open>Determinism of the shuffled order\<close>

lemma same_accum_fields:
  "same_accum a1 a2 \<longleftrightarrow>
     loss_all a1 = loss_all a2 \<and> f1_all a1 = f1_all a2 \<and> train_loss a1 = train_loss a2 \<and>
     train_pred a1 = train_pred a2 \<and> train_true a1 = train_true a2"
  by (cases a1; cases a2) (auto simp: same_accum_def)

lemma for_each_sim:
  assumes step: "\<And>x s t. R s t \<Longrightarrow>
      fst (body x s) = fst (body x t) \<and> R (snd (body x s)) (snd (body x t))"
    and "R s t"
  shows "fst (for_each body xs s) = fst (for_each body xs t) \<and>
         R (snd (for_each body xs s)) (snd (for_each body xs t))"
  using assms(2)
proof (induction xs arbitrary: s t)
  case Nil
  then show ?case by simp
next
  case (Cons x xs)
  obtain e1 s1 where b1: "body x s = (e1, s1)" by (cases "body x s")
  obtain e2 t1 where b2: "body x t = (e2, t1)" by (cases "body x t")
  from step [OF Cons.prems, of x] b1 b2 have e: "e1 = e2" and r: "R s1 t1" by simp_all
  show ?case
  proof (cases e1)
    case None
    with b1 b2 e Cons.IH [OF r] show ?thesis by simp
  next
    case (Some err)
    with b1 b2 e r show ?thesis by auto
  qed
qed

lemma model_call_sim:
  assumes "same_draws w1 w2"
  shows "fst (model_call L l x w1) = fst (model_call L l x w2)"
    and "same_draws (snd (model_call L l x w1)) (snd (model_call L l x w2))"
  using assms by (simp_all add: same_draws_def model_call_def called_def split_def Let_def)

lemma train_step_sim:
  assumes "same_draws w1 w2"
  shows "fst (train_step L x y (l, w1)) = fst (train_step L x y (l, w2))"
    and "fst (snd (train_step L x y (l, w1))) = fst (snd (train_step L x y (l, w2)))"
    and "same_draws (snd (snd (train_step L x y (l, w1)))) (snd (snd (train_step L x y (l, w2))))"
  using assms model_call_sim [OF assms, of L l x]
  by (simp_all add: same_draws_def train_step_def called_def split_def Let_def)

lemma log_progress_sim:
  assumes "same_draws w1 w2" and "same_accum a1 a2"
  shows "same_accum (fst (log_progress L args e i n l (a1, w1)))
           (fst (log_progress L args e i n l (a2, w2)))"
    and "same_draws (snd (log_progress L args e i n l (a1, w1)))
           (snd (log_progress L args e i n l (a2, w2)))"
  using assms
  by (simp_all add: same_draws_def same_accum_fields log_progress_def time_time_def open_a_def
      print_def split_def Let_def)

lemma train_batch_sim:
  assumes "sim_train s t"
  shows "fst (train_batch L args ds e ib s) = fst (train_batch L args ds e ib t) \<and>
         sim_train (snd (train_batch L args ds e ib s)) (snd (train_batch L args ds e ib t))"
proof -
  obtain l a1 w1 where s: "s = (l, a1, w1)" by (cases s rule: prod_cases3)
  obtain l' a2 w2 where t: "t = (l', a2, w2)" by (cases t rule: prod_cases3)
  obtain i idxs where ib: "ib = (i, idxs)" by (cases ib)
  from assms s t have l: "l' = l" and a: "same_accum a1 a2" and w: "same_draws w1 w2"
    by (simp_all add: sim_train_def)
  from a have af: "train_loss a1 = train_loss a2" "train_pred a1 = train_pred a2"
    "train_true a1 = train_true a2"
    by (simp_all add: same_accum_fields)
  show ?thesis
  proof (cases "fetch ds idxs")
    case (Inl err)
    with assms show ?thesis by (simp add: s t ib train_batch_def)
  next
    case (Inr batch)
    let ?x = "map fst batch" and ?y = "map snd batch"
    obtain out loss l1 v1 where t1: "train_step L ?x ?y (l, w1) = ((out, loss), l1, v1)"
      by (cases "train_step L ?x ?y (l, w1)") auto
    obtain out' loss' l2 v2 where t2: "train_step L ?x ?y (l, w2) = ((out', loss'), l2, v2)"
      by (cases "train_step L ?x ?y (l, w2)") auto
    from train_step_sim [OF w, of L ?x ?y l] t1 t2
    have eq: "out' = out" "loss' = loss" "l2 = l1" and v: "same_draws v1 v2"
      by simp_all
    have acc: "\<And>p q. same_accum
        (a1\<lparr>train_loss := train_loss a1 + loss, train_pred := train_pred a1 @ p,
            train_true := train_true a1 @ q\<rparr>)
        (a2\<lparr>train_loss := train_loss a2 + loss, train_pred := train_pred a2 @ p,
            train_true := train_true a2 @ q\<rparr>)"
      and acc1: "same_accum (a1\<lparr>train_loss := train_loss a1 + loss\<rparr>)
                            (a2\<lparr>train_loss := train_loss a2 + loss\<rparr>)"
      and acc2: "\<And>p. same_accum
        (a1\<lparr>train_loss := train_loss a1 + loss, train_pred := train_pred a1 @ p\<rparr>)
        (a2\<lparr>train_loss := train_loss a2 + loss, train_pred := train_pred a2 @ p\<rparr>)"
      using a by (simp_all add: same_accum_fields)
    show ?thesis
      unfolding s t ib l
      using log_progress_sim [OF v acc, of L args e i "loader_len ds" l1]
      by (simp add: train_batch_def Inr t1 t2 eq sim_train_def acc acc1 acc2 v split_def Let_def
          split: sum.splits)
  qed
qed

lemma train_loop_sim:
  assumes "sim_train s t"
  shows "fst (for_each (train_batch L args ds e) ibs s) =
           fst (for_each (train_batch L args ds e) ibs t) \<and>
         sim_train (snd (for_each (train_batch L args ds e) ibs s))
           (snd (for_each (train_batch L args ds e) ibs t))"
  by (rule for_each_sim [where R = sim_train, OF train_batch_sim assms])

lemma train_epoch_sim:
  assumes "same_draws w1 w2"
  shows "fst (train_epoch L args ds e (l, w1)) = fst (train_epoch L args ds e (l, w2))"
    and "sim_train (snd (train_epoch L args ds e (l, w1))) (snd (train_epoch L args ds e (l, w2)))"
proof -
  let ?v1 = "snd (time_time (called ModelTrain w1))" and ?v2 = "snd (time_time (called ModelTrain w2))"
  let ?t1 = "fst (time_time (called ModelTrain w1))" and ?t2 = "fst (time_time (called ModelTrain w2))"
  from assms have r: "rng ?v1 = rng ?v2" and c: "torch_calls ?v1 = torch_calls ?v2"
    by (simp_all add: same_draws_def time_time_def called_def)
  let ?perm = "fst (randperm L (rng ?v1) (length ds))"
  let ?g = "snd (randperm L (rng ?v1) (length ds))"
  let ?s1 = "(l\<lparr>lrn_training := True\<rparr>, init_accum ?t1, called (IterTrainLoader ?perm) (?v1\<lparr>rng := ?g\<rparr>))"
  let ?s2 = "(l\<lparr>lrn_training := True\<rparr>, init_accum ?t2, called (IterTrainLoader ?perm) (?v2\<lparr>rng := ?g\<rparr>))"
  have st: "sim_train ?s1 ?s2"
    using c by (simp add: sim_train_def same_accum_fields init_accum_def same_draws_def called_def)
  let ?ibs = "enumerate 0 (batches batch_size ?perm)"
  let ?r1 = "for_each (train_batch L args ds e) ?ibs ?s1"
  let ?r2 = "for_each (train_batch L args ds e) ?ibs ?s2"
  from train_loop_sim [OF st, of L args ds e ?ibs]
  have fe: "fst ?r1 = fst ?r2" and sr: "sim_train (snd ?r1) (snd ?r2)" by simp_all
  obtain e1 l1 a1 u1 where r1: "?r1 = (e1, l1, a1, u1)" by (cases ?r1) auto
  obtain e2 l2 a2 u2 where r2: "?r2 = (e2, l2, a2, u2)" by (cases ?r2) auto
  from fe sr r1 r2 have eq: "e2 = e1" "l2 = l1" and a: "same_accum a1 a2" and u: "same_draws u1 u2"
    by (simp_all add: sim_train_def)
  from a have la: "loss_all a2 = loss_all a1" by (simp add: same_accum_fields)
  have te1: "train_epoch L args ds e (l, w1) =
      (case e1 of Some err \<Rightarrow> (Some err, l1, a1, u1)
       | None \<Rightarrow> if loader_len ds = 0 then (Some ZeroDivisionError, l1, a1, u1)
           else (None, l1, a1\<lparr>train_loss := sum_list (loss_all a1) / of_nat (loader_len ds)\<rparr>,
                 print (EpochLoss e (epoch args) (sum_list (loss_all a1) / of_nat (loader_len ds))) u1))"
    using r1 by (simp add: train_epoch_def split_def Let_def split: option.splits)
  have te2: "train_epoch L args ds e (l, w2) =
      (case e1 of Some err \<Rightarrow> (Some err, l1, a2, u2)
       | None \<Rightarrow> if loader_len ds = 0 then (Some ZeroDivisionError, l1, a2, u2)
           else (None, l1, a2\<lparr>train_loss := sum_list (loss_all a1) / of_nat (loader_len ds)\<rparr>,
                 print (EpochLoss e (epoch args) (sum_list (loss_all a1) / of_nat (loader_len ds))) u2))"
    using r2 [unfolded r [symmetric]] eq la r
    by (simp add: train_epoch_def split_def Let_def split: option.splits)
  from a u show "fst (train_epoch L args ds e (l, w1)) = fst (train_epoch L args ds e (l, w2))"
    and "sim_train (snd (train_epoch L args ds e (l, w1))) (snd (train_epoch L args ds e (l, w2)))"
    unfolding te1 te2
    by (auto simp: sim_train_def same_accum_fields same_draws_def print_def split: option.splits)
qed

lemma eval_batch_sim:
  assumes "sim_eval s t"
  shows "fst (eval_batch L l ib s) = fst (eval_batch L l ib t) \<and>
         sim_eval (snd (eval_batch L l ib s)) (snd (eval_batch L l ib t))"
proof -
  obtain b1 w1 where s: "s = (b1, w1)" by (cases s)
  obtain b2 w2 where t: "t = (b2, w2)" by (cases t)
  obtain i batch where ib: "ib = (i, batch)" by (cases ib)
  from assms s t have b: "b2 = b1" and w: "same_draws w1 w2" by (simp_all add: sim_eval_def)
  from model_call_sim [OF w, of L l "map fst batch"] show ?thesis
    unfolding s t ib b
    by (simp add: eval_batch_def sim_eval_def split_def Let_def split: option.splits)
qed

lemma eval_loop_sim:
  assumes "same_draws w1 w2"
  shows "fst (eval_loop L ts (l, w1)) = fst (eval_loop L ts (l, w2))"
    and "fst (snd (eval_loop L ts (l, w1))) = fst (snd (eval_loop L ts (l, w2)))"
    and "fst (snd (snd (eval_loop L ts (l, w1)))) = fst (snd (snd (eval_loop L ts (l, w2))))"
    and "same_draws (snd (snd (snd (eval_loop L ts (l, w1))))) (snd (snd (snd (eval_loop L ts (l, w2)))))"
proof -
  from assms have "sim_eval (None, called ModelEval w1) (None, called ModelEval w2)"
    by (simp add: sim_eval_def same_draws_def called_def)
  from for_each_sim [where R = sim_eval
      and body = "eval_batch L (l\<lparr>lrn_training := False\<rparr>)"
      and xs = "enumerate 0 (batches batch_size ts)", OF eval_batch_sim this]
  show "fst (eval_loop L ts (l, w1)) = fst (eval_loop L ts (l, w2))"
    and "fst (snd (eval_loop L ts (l, w1))) = fst (snd (eval_loop L ts (l, w2)))"
    and "fst (snd (snd (eval_loop L ts (l, w1)))) = fst (snd (snd (eval_loop L ts (l, w2))))"
    and "same_draws (snd (snd (snd (eval_loop L ts (l, w1))))) (snd (snd (snd (eval_loop L ts (l, w2)))))"
    by (simp_all add: eval_loop_def sim_eval_def split_def Let_def)
qed

lemma write_report_draws:
  "same_draws w1 w2 \<Longrightarrow>
   same_draws (write_report L args e n losses r w1) (write_report L args e n losses r w2)"
  by (cases r) (simp add: same_draws_def write_report_def open_a_def print_def Let_def)

lemma run_epoch_sim:
  assumes "sim_run s t"
  shows "fst (run_epoch L args tr ts n e s) = fst (run_epoch L args tr ts n e t) \<and>
         sim_run (snd (run_epoch L args tr ts n e s)) (snd (run_epoch L args tr ts n e t))"
proof -
  obtain l w1 where s: "s = (l, w1)" by (cases s)
  obtain l' w2 where t: "t = (l', w2)" by (cases t)
  from assms s t have l: "l' = l" and w: "same_draws w1 w2" by (simp_all add: sim_run_def)
  obtain e1 l1 a1 u1 where r1: "train_epoch L args tr e (l, w1) = (e1, l1, a1, u1)"
    by (cases "train_epoch L args tr e (l, w1)") auto
  obtain e2 l2 a2 u2 where r2: "train_epoch L args tr e (l, w2) = (e2, l2, a2, u2)"
    by (cases "train_epoch L args tr e (l, w2)") auto
  from train_epoch_sim [OF w, of L args tr e l] r1 r2
  have eq: "e2 = e1" "l2 = l1" and a: "same_accum a1 a2" and u: "same_draws u1 u2"
    by (simp_all add: sim_train_def)
  from a have la: "loss_all a2 = loss_all a1" by (simp add: same_accum_fields)
  obtain e3 l3 b3 v1 where v1: "eval_loop L ts (l1, u1) = (e3, l3, b3, v1)"
    by (cases "eval_loop L ts (l1, u1)") auto
  obtain e4 l4 b4 v2 where v2: "eval_loop L ts (l1, u2) = (e4, l4, b4, v2)"
    by (cases "eval_loop L ts (l1, u2)") auto
  from eval_loop_sim [OF u, of L ts l1] v1 v2
  have eq2: "e4 = e3" "l4 = l3" "b4 = b3" and v: "same_draws v1 v2"
    by simp_all
  show ?thesis
    unfolding s t l
    using u v write_report_draws [OF v]
    by (auto simp: run_epoch_def r1 r2 eq v1 v2 eq2 la sim_run_def
        split: option.splits sum.splits)
qed

lemma epochs_sim:
  assumes "same_draws w1 w2"
  shows "fst (for_each (run_epoch L args tr ts n) es (l, w1)) =
           fst (for_each (run_epoch L args tr ts n) es (l, w2))"
    and "same_draws (snd (snd (for_each (run_epoch L args tr ts n) es (l, w1))))
           (snd (snd (for_each (run_epoch L args tr ts n) es (l, w2))))"
proof -
  from assms have "sim_run (l, w1) (l, w2)" by (simp add: sim_run_def)
  from for_each_sim [where R = sim_run and body = "run_epoch L args tr ts n" and xs = es,
      OF run_epoch_sim this]
  show "fst (for_each (run_epoch L args tr ts n) es (l, w1)) =
           fst (for_each (run_epoch L args tr ts n) es (l, w2))"
    and "same_draws (snd (snd (for_each (run_epoch L args tr ts n) es (l, w1))))
           (snd (snd (for_each (run_epoch L args tr ts n) es (l, w2))))"
    by (simp_all add: sim_run_def)
qed

lemma select_tune_mode_sim:
  assumes "same_draws w1 w2"
  shows "fst (select_tune_mode L args (m, w1)) = fst (select_tune_mode L args (m, w2))"
    and "same_draws (snd (select_tune_mode L args (m, w1))) (snd (select_tune_mode L args (m, w2)))"
    and "fs (snd (select_tune_mode L args (m, w1))) = fs w1"
    and "fs (snd (select_tune_mode L args (m, w2))) = fs w2"
  using assms by (simp_all add: select_tune_mode_def same_draws_def called_def)

lemma load_pretrained_sim:
  assumes "same_draws w1 w2" and "fs w1 (load_path args) = fs w2 (load_path args)"
  shows "fst (load_pretrained L args (m, w1)) = fst (load_pretrained L args (m, w2))"
    and "fst (snd (load_pretrained L args (m, w1))) = fst (snd (load_pretrained L args (m, w2)))"
    and "same_draws (snd (snd (load_pretrained L args (m, w1))))
           (snd (snd (load_pretrained L args (m, w2))))"
  using assms
  by (auto simp: load_pretrained_def torch_load_def same_draws_def called_def open_a_def
      split: option.splits file_content.splits sum.splits prod.splits)

lemma script_sim:
  assumes tr: "fs w1 (training_data_path args) = fs w2 (training_data_path args)"
    and te: "fs w1 (testing_data_path args) = fs w2 (testing_data_path args)"
    and ck: "fs w1 (load_path args) = fs w2 (load_path args)"
    and tc: "torch_calls w1 = torch_calls w2"
  shows "fst (script L args w1) = fst (script L args w2)"
    and "same_draws (snd (script L args w1)) (snd (script L args w2))"
proof -
  let ?u1 = "fix_seeds (write_args L args w1)" and ?u2 = "fix_seeds (write_args L args w2)"
  have agree: "fs ?u1 p = fs ?u2 p" if "fs w1 p = fs w2 p" for p
    using that by (simp add: fix_seeds_def write_args_def open_w_def)
  have sd: "same_draws ?u1 ?u2"
    using tc by (simp add: same_draws_def fix_seeds_def write_args_def open_w_def)
  have n1: "np_load (training_data_path args) ?u1 = np_load (training_data_path args) ?u2"
    using agree [OF tr] by (simp add: np_load_def)
  have n2: "np_load (testing_data_path args) ?u1 = np_load (testing_data_path args) ?u2"
    using agree [OF te] by (simp add: np_load_def)
  have rg: "rng ?u1 = rng ?u2" using sd by (simp add: same_draws_def)
  let ?m = "fst (Model L (model_hparams args) (rng ?u1))"
  let ?g = "snd (Model L (model_hparams args) (rng ?u1))"
  have sg: "same_draws (?u1\<lparr>rng := ?g\<rparr>) (?u2\<lparr>rng := ?g\<rparr>)"
    using sd by (simp add: same_draws_def)
  let ?s1 = "select_tune_mode L args (?m, ?u1\<lparr>rng := ?g\<rparr>)"
  let ?s2 = "select_tune_mode L args (?m, ?u2\<lparr>rng := ?g\<rparr>)"
  from select_tune_mode_sim [OF sg, of L args ?m]
  have sm: "fst ?s2 = fst ?s1" and ss: "same_draws (snd ?s1) (snd ?s2)"
    and sf: "fs (snd ?s1) (load_path args) = fs (snd ?s2) (load_path args)"
    using agree [OF ck] by simp_all
  let ?p1 = "load_pretrained L args (DataParallel (fst ?s1), snd ?s1)"
  let ?p2 = "load_pretrained L args (DataParallel (fst ?s1), snd ?s2)"
  from load_pretrained_sim [OF ss sf, of L "DataParallel (fst ?s1)"]
  have pe: "fst ?p2 = fst ?p1" and pm: "fst (snd ?p2) = fst (snd ?p1)"
    and pw: "same_draws (snd (snd ?p1)) (snd (snd ?p2))"
    by simp_all
  have ep: "\<And>tr ts n es l.
      fst (for_each (run_epoch L args tr ts n) es (l, snd (snd ?p1))) =
      fst (for_each (run_epoch L args tr ts n) es (l, snd (snd ?p2))) \<and>
      same_draws (snd (snd (for_each (run_epoch L args tr ts n) es (l, snd (snd ?p1)))))
           (snd (snd (for_each (run_epoch L args tr ts n) es (l, snd (snd ?p2)))))"
    using epochs_sim [OF pw] by blast
  have unf: "script L args w =
      (case np_load (training_data_path args) (fix_seeds (write_args L args w)) of
         Inl err \<Rightarrow> (Some err, fix_seeds (write_args L args w))
       | Inr d1 \<Rightarrow>
           (case np_load (testing_data_path args) (fix_seeds (write_args L args w)) of
              Inl err \<Rightarrow> (Some err, fix_seeds (write_args L args w))
            | Inr d2 \<Rightarrow>
                (let p = load_pretrained L args
                           (DataParallel (fst (select_tune_mode L args
                              (fst (Model L (model_hparams args) (rng (fix_seeds (write_args L args w)))),
                               (fix_seeds (write_args L args w))
                                 \<lparr>rng := snd (Model L (model_hparams args) (rng (fix_seeds (write_args L args w))))\<rparr>))),
                            snd (select_tune_mode L args
                              (fst (Model L (model_hparams args) (rng (fix_seeds (write_args L args w)))),
                               (fix_seeds (write_args L args w))
                                 \<lparr>rng := snd (Model L (model_hparams args) (rng (fix_seeds (write_args L args w))))\<rparr>)))
                 in case fst p of
                      Some err \<Rightarrow> (Some err, snd (snd p))
                    | None \<Rightarrow>
                        (let r = for_each
                                   (run_epoch L args
                                      (DataGenerator L (npz_x d1) (npz_y d1) (window_size args))
                                      (DataGenerator L (npz_x d2) (npz_y d2) (window_size args))
                                      (length (npz_x d2)))
                                   (range_int (start_epoch + 1) (epoch args))
                                   (make_learner L args
                                      (loader_len (DataGenerator L (npz_x d1) (npz_y d1) (window_size args)))
                                      (fst (snd p)),
                                    snd (snd p))
                         in (fst r, snd (snd r))))))" for w
    by (simp add: script_def split_def Let_def split: sum.splits option.splits)
  show "fst (script L args w1) = fst (script L args w2)"
    unfolding unf n1 [symmetric] n2 [symmetric] rg [symmetric] sm Let_def
    using pe pm ep sd by (auto split: sum.splits option.splits)
  show "same_draws (snd (script L args w1)) (snd (script L args w2))"
    unfolding unf n1 [symmetric] n2 [symmetric] rg [symmetric] sm Let_def
    using pe pm ep pw sd by (auto split: sum.splits option.splits)
qed

lemma ex_train_epoch_calls_any:
  "torch_calls (snd (snd (snd (train_epoch ex_lib args [([[1]], [1, 0]), ([[2]], [0, 1])] e (l, w))))) =
     torch_calls w @ [ModelTrain, IterTrainLoader [1, 0]] @ step_calls"
proof -
  obtain l1 a1 w1 where te:
    "train_epoch ex_lib args [([[1]], [1, 0]), ([[2]], [0, 1])] e (l, w) = (None, l1, a1, w1)"
    using ex_train_epoch_any [of args e l w]
    by (cases "train_epoch ex_lib args [([[1]], [1, 0]), ([[2]], [0, 1])] e (l, w)") auto
  have p: "fst (randperm ex_lib g (length [([[1::rat]], [1::rat, 0]), ([[2]], [0, 1])])) = [Suc 0, 0]" for g
    by (simp add: ex_lib_def upt_rec)
  have b: "batches batch_size [Suc 0, 0] = [[Suc 0, 0]]"
    by (simp add: batches_short batch_size_def)
  from train_epoch_calls(1) [OF te] show ?thesis
    unfolding te p b by simp
qed

lemma ex_run_epoch_calls_any:
  "torch_calls (snd (snd (run_epoch ex_lib args [([[1]], [1, 0]), ([[2]], [0, 1])]
       [([[3]], [1, 0])] n e (l, w)))) =
     torch_calls w @ [ModelTrain, IterTrainLoader [1, 0]] @ step_calls @ [ModelEval, Forward]"
proof -
  obtain l1 a1 w1 where te:
    "train_epoch ex_lib args [([[1]], [1, 0]), ([[2]], [0, 1])] e (l, w) = (None, l1, a1, w1)"
    using ex_train_epoch_any [of args e l w]
    by (cases "train_epoch ex_lib args [([[1]], [1, 0]), ([[2]], [0, 1])] e (l, w)") auto
  from ex_train_epoch_calls_any [of args e l w] te
  have c1: "torch_calls w1 = torch_calls w @ [ModelTrain, IterTrainLoader [1, 0]] @ step_calls"
    by simp
  have b: "batches batch_size [([[3::rat]], [1::rat, 0])] = [[([[3]], [1, 0])]]"
    by (simp add: batches_short batch_size_def)
  have ev: "eval_loop ex_lib [([[3]], [1, 0])] (l1, w1) =
      (None, l1\<lparr>lrn_training := False\<rparr>, Some ([[1, 0]], [[1, 0]]),
       w1\<lparr>torch_calls := torch_calls w1 @ [ModelEval, Forward]\<rparr>)"
    by (simp add: eval_loop_nonempty b) (simp add: ex_lib_def)
  have cm: "calc_metrics ex_lib (Some ([[1, 0]], [[1, 0]])) = Inr ([0], [0], 0, 0, 0)"
    by (simp add: calc_metrics_def argmax_rows_def argmax_def ex_lib_def)
  from te ev cm c1 show ?thesis
    by (simp add: run_epoch_def write_report_def open_a_def print_def Let_def)
qed

lemma train_batch_order_append:
  "torch_calls w' = torch_calls w @ cs \<Longrightarrow>
   train_batch_order w' = train_batch_order w @
     concat (map (\<lambda>c. case c of IterTrainLoader perm \<Rightarrow> [batches batch_size perm] | _ \<Rightarrow> []) cs)"
  by (simp add: train_batch_order_def)

lemma train_batch_order_load_pretrained:
  "train_batch_order (snd (snd (load_pretrained L args (m, w)))) = train_batch_order w"
  by (auto simp: load_pretrained_def torch_load_def train_batch_order_def called_def open_a_def
      split: option.splits file_content.splits sum.splits prod.splits)

lemma train_batch_order_select_tune_mode:
  "train_batch_order (snd (select_tune_mode L args (m, w))) = train_batch_order w"
  by (simp add: select_tune_mode_def train_batch_order_def called_def)

lemma ex_script_order:
  "train_batch_order (snd (script ex_lib ex_args ex_world_full)) = [[[1, 0]]]"
proof -
  let ?w2 = "fix_seeds (write_args ex_lib ex_args ex_world_full)"
  have tp: "training_data_path ex_args = ''./preprocessed_data/BGL_2k_training_data.npz''"
    and sp: "testing_data_path ex_args = ''./preprocessed_data/BGL_2k_testing_data.npz''"
    by (simp_all add: training_data_path_def testing_data_path_def ex_args_def)
  have f1: "fs ?w2 (training_data_path ex_args) = Some (NpzFile ex_training_data)"
    unfolding tp by (simp add: fix_seeds_def write_args_def open_w_def ex_world_full_def)
  have f2: "fs ?w2 (testing_data_path ex_args) = Some (NpzFile ex_testing_data)"
    unfolding sp by (simp add: fix_seeds_def write_args_def open_w_def ex_world_full_def)
  have f3: "fs ?w2 ''checkpoints/best.pt'' = Some (CkptFile ex_checkpoint)"
    by (simp add: fix_seeds_def write_args_def open_w_def ex_world_full_def)
  have n1: "np_load (training_data_path ex_args) ?w2 = Inr ex_training_data"
    by (simp add: np_load_def f1)
  have n2: "np_load (testing_data_path ex_args) ?w2 = Inr ex_testing_data"
    by (simp add: np_load_def f2)
  have g1: "DataGenerator ex_lib (npz_x ex_training_data) (npz_y ex_training_data) ws =
      [([[1]], [1, 0]), ([[2]], [0, 1])]" for ws
    by (simp add: ex_lib_def ex_training_data_def)
  have g2: "DataGenerator ex_lib (npz_x ex_testing_data) (npz_y ex_testing_data) ws =
      [([[3]], [1, 0])]" for ws
    by (simp add: ex_lib_def ex_testing_data_def)
  let ?m = "fst (Model ex_lib (model_hparams ex_args) (rng ?w2))"
  let ?g = "snd (Model ex_lib (model_hparams ex_args) (rng ?w2))"
  let ?s = "select_tune_mode ex_lib ex_args (?m, ?w2\<lparr>rng := ?g\<rparr>)"
  have s3: "fs (snd ?s) ''checkpoints/best.pt'' = Some (CkptFile ex_checkpoint)"
    using f3 by (simp add: select_tune_mode_def called_def)
  have dp: "DataParallel (fst ?s) =
      [(''module.fc1.weight'', ex_param 1),
       (''module.adapter.weight'', (ex_param 3)\<lparr>requires_grad := True\<rparr>)]"
    by (simp add: select_tune_mode_def DataParallel_def ex_lib_def ex_args_def
        set_requires_grad_def ex_param_def)
  have lp: "fst (load_pretrained ex_lib ex_args (DataParallel (fst ?s), snd ?s)) = None"
    unfolding dp by (rule ex_load_ok [OF s3])
  have o0: "train_batch_order (?w2\<lparr>rng := ?g\<rparr>) = []"
    by (simp add: train_batch_order_def fix_seeds_def write_args_def open_w_def
        ex_world_full_def ex_world_def)
  have o1: "train_batch_order (snd (snd (load_pretrained ex_lib ex_args
               (DataParallel (fst ?s), snd ?s)))) = []"
    by (simp only: train_batch_order_load_pretrained train_batch_order_select_tune_mode o0)
  obtain m2 w4 where l4: "load_pretrained ex_lib ex_args (DataParallel (fst ?s), snd ?s) = (None, m2, w4)"
    using lp by (cases "load_pretrained ex_lib ex_args (DataParallel (fst ?s), snd ?s)") auto
  from o1 l4 have o4: "train_batch_order w4 = []" by simp
  have ep: "range_int (start_epoch + 1) (epoch ex_args) = [0]"
    by (simp add: range_from_zero ex_args_def)
  let ?lr = "make_learner ex_lib ex_args (loader_len [([[1::rat]], [1::rat, 0]), ([[2]], [0, 1])]) m2"
  let ?r = "run_epoch ex_lib ex_args [([[1]], [1, 0]), ([[2]], [0, 1])] [([[3]], [1, 0])]
              (length (npz_x ex_testing_data)) 0 (?lr, w4)"
  have sc: "snd (script ex_lib ex_args ex_world_full) = snd (snd ?r)"
    unfolding script_def Let_def n1 n2
    using ex_run_epoch_any [of ex_args "length (npz_x ex_testing_data)" 0 ?lr w4]
    by (simp add: split_def g1 g2 l4 ep)
  from train_batch_order_append [OF ex_run_epoch_calls_any
      [of ex_args "length (npz_x ex_testing_data)" 0 ?lr w4]]
  have "train_batch_order (snd (snd ?r)) = [[[1, 0]]]"
    by (simp add: o4 step_calls_def batches_short batch_size_def)
  with sc show ?thesis by simp
qed

text \<open>
  Claim C8. The script seeds every generator with the constant 123 before anything draws
  from one. Two runs with the same configuration and collaborators, started in worlds that
  hold the same training data, testing data and checkpoint, hand out the same batches of
  dataset indices in every training epoch, make the same framework calls and end alike,
  whatever the two worlds' generators, clocks, consoles and other files were at the start.
\<close>

theorem shuffle_order_is_deterministic:
  assumes "fs w1 (training_data_path args) = fs w2 (training_data_path args)"
    and "fs w1 (testing_data_path args) = fs w2 (testing_data_path args)"
    and "fs w1 (load_path args) = fs w2 (load_path args)"
    and "torch_calls w1 = torch_calls w2"
  shows "train_batch_order (snd (script L args w1)) = train_batch_order (snd (script L args w2)) \<and>
         torch_calls (snd (script L args w1)) = torch_calls (snd (script L args w2)) \<and>
         fst (script L args w1) = fst (script L args w2)"
  using script_sim [OF assms, of L]
  by (simp add: same_draws_def train_batch_order_def)

theorem shuffle_order_is_deterministic_witness:
  "fs ex_world_full (training_data_path ex_args) = fs ex_world_rerun (training_data_path ex_args) \<and>
   fs ex_world_full (testing_data_path ex_args) = fs ex_world_rerun (testing_data_path ex_args) \<and>
   fs ex_world_full (load_path ex_args) = fs ex_world_rerun (load_path ex_args) \<and>
   torch_calls ex_world_full = torch_calls ex_world_rerun \<and>
   rng ex_world_full \<noteq> rng ex_world_rerun \<and>
   clock ex_world_full 0 \<noteq> clock ex_world_rerun 0 \<and>
   train_batch_order (snd (script ex_lib ex_args ex_world_full)) =
     train_batch_order (snd (script ex_lib ex_args ex_world_rerun)) \<and>
   train_batch_order (snd (script ex_lib ex_args ex_world_rerun)) = [[[1, 0]]]"
proof -
  have tp: "training_data_path ex_args = ''./preprocessed_data/BGL_2k_training_data.npz''"
    and sp: "testing_data_path ex_args = ''./preprocessed_data/BGL_2k_testing_data.npz''"
    and lp: "load_path ex_args = ''checkpoints/best.pt''"
    by (simp_all add: training_data_path_def testing_data_path_def ex_args_def)
  have h1: "fs ex_world_full (training_data_path ex_args) =
            fs ex_world_rerun (training_data_path ex_args)"
    unfolding tp by (simp add: ex_world_rerun_def)
  have h2: "fs ex_world_full (testing_data_path ex_args) =
            fs ex_world_rerun (testing_data_path ex_args)"
    unfolding sp by (simp add: ex_world_rerun_def)
  have h3: "fs ex_world_full (load_path ex_args) = fs ex_world_rerun (load_path ex_args)"
    unfolding lp by (simp add: ex_world_rerun_def)
  have h4: "torch_calls ex_world_full = torch_calls ex_world_rerun"
    by (simp add: ex_world_rerun_def)
  have d1: "rng ex_world_full \<noteq> rng ex_world_rerun"
    by (simp add: ex_world_rerun_def ex_world_full_def ex_world_def)
  have d2: "clock ex_world_full 0 \<noteq> clock ex_world_rerun 0"
    by (simp add: ex_world_rerun_def ex_world_full_def ex_world_def)
  from shuffle_order_is_deterministic [OF h1 h2 h3 h4, of ex_lib] h1 h2 h3 h4 d1 d2
    ex_script_order
  show ?thesis by simp
qed

end
